theory Spec2Isabelle
  imports Main "HOL-Library.Word" "HOL-Library.Multiset" "HOL-Library.AList"
begin

unbundle bit_operations_syntax

section \<open>Common data of the MPC library\<close>

text \<open>
  Bytes are 8-bit words, byte slices are lists of bytes, and a party identifier
  (\<^verbatim>\<open>party.ID\<close>) is a string.
\<close>

type_synonym byte = "8 word"
type_synonym bytes = "byte list"
type_synonym party_id = string

text \<open>
  The error values that the embedded functions return. \<open>Err s\<close> is
  \<^verbatim>\<open>errors.New(s)\<close>, \<open>Wrapped s e\<close> is \<^verbatim>\<open>fmt.Errorf("s: %w", e)\<close>, and
  \<open>Panic s\<close> is a run-time panic of the Go program (an index out of range, a nil
  dereference), which is not a returned error value but ends the call.
\<close>

datatype error =
    ErrInvalidContent
  | ErrNilFields
  | ErrNotEnoughMessages
  | ErrInvalidKey
  | Err string
  | Wrapped string error
  | Panic string

text \<open>
  The content of a \<^verbatim>\<open>round.Message\<close> is an interface value. The rounds assert
  it to a pointer to their own body type: \<open>Body b\<close> is a non-nil pointer to a body of
  the expected type, \<open>NilBody\<close> a nil pointer of that type, and \<open>OtherContent\<close> a
  value of any other dynamic type.
\<close>

datatype 'b content = Body 'b | NilBody | OtherContent

record 'b message =
  From :: party_id
  Content :: "'b content"

text \<open>
  A Go map (\<^verbatim>\<open>map[party.ID]T\<close>) is an association list with one entry for each
  key: \<^verbatim>\<open>m[k] = v\<close> is \<open>AList.update k v m\<close>, \<^verbatim>\<open>m[k]\<close> is \<open>map_of m k\<close>
  and \<^verbatim>\<open>len(m)\<close> is the length of the list. Lengths and party counts are Go
  \<^verbatim>\<open>int\<close>s, so that \<^verbatim>\<open>r.N()-1\<close> is \<open>-1\<close> for an empty party list.
\<close>

type_synonym ('k, 'v) gomap = "('k \<times> 'v) list"

definition len :: "('k, 'v) gomap \<Rightarrow> int" where
  "len m = int (length m)"

text \<open>
  What \<^verbatim>\<open>Finalize\<close> returns as its \<^verbatim>\<open>round.Session\<close>: nil, the round
  itself, the successor round, or one of the two closing rounds that
  \<^verbatim>\<open>Helper.AbortRound\<close> and \<^verbatim>\<open>Helper.ResultRound\<close> build.
\<close>

datatype ('r, 'n, 'o) session =
    NoSession
  | ThisRound 'r
  | NextRound 'n
  | AbortRound error
  | ResultRound 'o

section \<open>Collaborators: curve, session helper, key managers, message manager\<close>

text \<open>
  The curve of a session is an external collaborator. \<^verbatim>\<open>curve.Curve\<close> is an
  interface; the source names one implementation, \<^verbatim>\<open>curve.Secp256k1{}\<close>, and
  \<open>OtherCurve n\<close> stands for any other implementation, of name \<open>n\<close>.
\<close>

datatype curve = Secp256k1 | OtherCurve string

fun Name :: "curve \<Rightarrow> string" where
  "Name Secp256k1 = ''secp256k1''"
| "Name (OtherCurve n) = n"

text \<open>
  A scalar (\<^verbatim>\<open>curve.Scalar\<close>) is its representative in \<open>{0..<Order}\<close>. The points
  (\<^verbatim>\<open>curve.Point\<close>) are any type \<open>'p\<close>; the operations of the session's curve
  that the rounds call are the fields of a record that the embedded functions take as
  their first argument: the group order, \<^verbatim>\<open>NewPoint\<close> (the identity),
  \<^verbatim>\<open>IsIdentity\<close>, \<^verbatim>\<open>ActOnBase\<close>, \<^verbatim>\<open>Add\<close>, \<^verbatim>\<open>Act\<close>, and
  \<^verbatim>\<open>MarshalBinary\<close> and \<^verbatim>\<open>UnmarshalBinary\<close> of points and of scalars.
\<close>

record 'p CurveOps =
  Order :: nat
  NewPoint :: 'p
  IsIdentity :: "'p \<Rightarrow> bool"
  ActOnBase :: "nat \<Rightarrow> 'p"
  PointAdd :: "'p \<Rightarrow> 'p \<Rightarrow> 'p"
  Act :: "nat \<Rightarrow> 'p \<Rightarrow> 'p"
  PointMarshalBinary :: "'p \<Rightarrow> error + bytes"
  PointUnmarshalBinary :: "bytes \<Rightarrow> error + 'p"
  ScalarMarshalBinary :: "nat \<Rightarrow> error + bytes"
  ScalarUnmarshalBinary :: "bytes \<Rightarrow> error + nat"

text \<open>\<^verbatim>\<open>NewScalar\<close>, \<^verbatim>\<open>Scalar.IsZero\<close> and \<^verbatim>\<open>Scalar.Add\<close> on representatives.\<close>

definition NewScalar :: "'p CurveOps \<Rightarrow> nat" where
  "NewScalar G = 0"

definition IsZero :: "nat \<Rightarrow> bool" where
  "IsZero s = (s = 0)"

definition ScalarAdd :: "'p CurveOps \<Rightarrow> nat \<Rightarrow> nat \<Rightarrow> nat" where
  "ScalarAdd G a b = (a + b) mod Order G"

text \<open>
  A curve for evaluating the rounds on concrete inputs: the additive group of the
  integers modulo 7, generated by 1, with a point written as its discrete logarithm.
  Points and scalars are encoded in one byte.
\<close>

definition Z7_decode :: "bytes \<Rightarrow> error + nat" where
  "Z7_decode bs =
     (case bs of
        [b] \<Rightarrow> if unat b < 7 then Inr (unat b) else Inl (Err ''invalid encoding'')
      | _ \<Rightarrow> Inl (Err ''invalid encoding''))"

definition Z7 :: "nat CurveOps" where
  "Z7 = \<lparr>Order = 7, NewPoint = 0, IsIdentity = (\<lambda>p. p = 0),
          ActOnBase = (\<lambda>s. s mod 7), PointAdd = (\<lambda>a b. (a + b) mod 7),
          Act = (\<lambda>s p. (s * p) mod 7),
          PointMarshalBinary = (\<lambda>p. Inr [of_nat p]), PointUnmarshalBinary = Z7_decode,
          ScalarMarshalBinary = (\<lambda>s. Inr [of_nat s]), ScalarUnmarshalBinary = Z7_decode\<rparr>"

text \<open>
  Modelled from the spec: \<^verbatim>\<open>round.Helper\<close>, the per-session context that every
  round embeds (session id, self party id, the ordered party-id set, threshold and
  group). \<^verbatim>\<open>N()\<close> is the number of parties and \<^verbatim>\<open>OtherPartyIDs()\<close> are all
  parties but the local one.
\<close>

record Helper =
  ID :: string
  SelfID :: party_id
  PartyIDs :: "party_id list"
  Threshold :: nat
  Group :: curve

definition N :: "'x Helper_scheme \<Rightarrow> int" where
  "N r = int (length (PartyIDs r))"

definition OtherPartyIDs :: "'x Helper_scheme \<Rightarrow> party_id list" where
  "OtherPartyIDs r = filter (\<lambda>j. j \<noteq> SelfID r) (PartyIDs r)"

text \<open>
  \<^verbatim>\<open>keyopts.Options\<close> as the rounds fill it: the pair of the values set for
  \<^verbatim>\<open>"id"\<close> and \<^verbatim>\<open>"partyid"\<close>.
\<close>

type_synonym opts = "string \<times> string"

text \<open>
  Modelled from the spec: a key manager is a store keyed by the options key.
  \<^verbatim>\<open>ImportKey(obj, opts)\<close> writes the object under the key and never silently
  overwrites: a second import under the same key is an error unless the content is
  identical. \<^verbatim>\<open>GetKey(opts)\<close> reads it back and fails when there is none.
\<close>

type_synonym 'k manager = "opts \<rightharpoonup> 'k"

definition ImportKey :: "'k manager \<Rightarrow> 'k \<Rightarrow> opts \<Rightarrow> error + 'k manager" where
  "ImportKey km k opts =
     (case km opts of
        None \<Rightarrow> Inr (km(opts \<mapsto> k))
      | Some k' \<Rightarrow> if k' = k then Inr km else Inl (Err ''key already exists''))"

definition GetKey :: "'k manager \<Rightarrow> opts \<Rightarrow> error + 'k" where
  "GetKey km opts = (case km opts of None \<Rightarrow> Inl (Err ''key not found'') | Some k \<Rightarrow> Inr k)"

text \<open>
  Modelled from the spec: the message manager records, for each (session id, round
  number, sender), a received flag; \<^verbatim>\<open>HasAll\<close> is true iff every listed party has
  delivered, and the re-arrival of a message already received changes nothing.
\<close>

type_synonym MessageManager = "(string \<times> nat \<times> string) \<rightharpoonup> bool"

definition mm_Import :: "MessageManager \<Rightarrow> string \<times> nat \<times> string \<times> bool \<Rightarrow> error + MessageManager" where
  "mm_Import mm m = (case m of (sid, rnd, from, flag) \<Rightarrow> Inr (mm((sid, rnd, from) \<mapsto> flag)))"

definition HasAll :: "MessageManager \<Rightarrow> string \<Rightarrow> nat \<Rightarrow> string list \<Rightarrow> error + bool" where
  "HasAll mm sid rnd parties = Inr (list_all (\<lambda>p. mm (sid, rnd, p) = Some True) parties)"

text \<open>
  Modelled from the spec: the output channel of \<^verbatim>\<open>Finalize\<close> is owned by the
  caller and the rounds never block on it. \<^verbatim>\<open>Helper.BroadcastMessage\<close> and
  \<^verbatim>\<open>Helper.SendMessage\<close> put one message from the local party on the channel
  and return an error when it takes no more. A broadcast has the empty recipient.
\<close>

record 'c out_message =
  msg_From :: party_id
  msg_To :: party_id
  msg_Broadcast :: bool
  msg_Content :: 'c

record 'c out_chan =
  capacity :: nat
  queue :: "'c out_message list"

definition emit :: "'c out_chan \<Rightarrow> 'c out_message \<Rightarrow> error + 'c out_chan" where
  "emit out m =
     (if length (queue out) < capacity out then Inr (out\<lparr>queue := queue out @ [m]\<rparr>)
      else Inl (Err ''out channel is full''))"

definition BroadcastMessage ::
  "'x Helper_scheme \<Rightarrow> 'c out_chan \<Rightarrow> 'c \<Rightarrow> error + 'c out_chan" where
  "BroadcastMessage r out c =
     emit out \<lparr>msg_From = SelfID r, msg_To = [], msg_Broadcast = True, msg_Content = c\<rparr>"

definition SendMessage ::
  "'x Helper_scheme \<Rightarrow> 'c out_chan \<Rightarrow> 'c \<Rightarrow> party_id \<Rightarrow> error + 'c out_chan" where
  "SendMessage r out c to =
     emit out \<lparr>msg_From = SelfID r, msg_To = to, msg_Broadcast = False, msg_Content = c\<rparr>"

text \<open>
  \<^verbatim>\<open>type ECDSAKey struct\<close>: the private scalar (nil for a public-only key), the
  public point and the group (an interface value, nil when unset).
\<close>

record 'p ECDSAKey =
  priv :: "nat option"
  pub :: 'p
  group :: "curve option"

definition NewECDSAKey :: "nat option \<Rightarrow> 'p \<Rightarrow> curve option \<Rightarrow> 'p ECDSAKey" where
  "NewECDSAKey sk pk g = \<lparr>priv = sk, pub = pk, group = g\<rparr>"

definition Private :: "'p ECDSAKey \<Rightarrow> bool" where
  "Private key = (priv key \<noteq> None)"

definition PublicKeyRaw :: "'p ECDSAKey \<Rightarrow> 'p" where
  "PublicKeyRaw key = pub key"

section \<open>MPC state manager (package state, file ecdsa.go)\<close>

text \<open>
  The state of a session as the manager's methods change it, and the state store behind
  the \<^verbatim>\<open>MPCStateStore\<close> interface: \<^verbatim>\<open>Get\<close> fails for an unknown session and
  \<^verbatim>\<open>Import\<close> writes the state under its id.
\<close>

record State =
  state_ID :: string
  LastRound :: int
  Aborted :: bool
  Completed :: bool

type_synonym MPCStateManager = "string \<rightharpoonup> State"

definition store_Get :: "MPCStateManager \<Rightarrow> string \<Rightarrow> error + State" where
  "store_Get store sid =
     (case store sid of None \<Rightarrow> Inl (Err ''state not found'') | Some st \<Rightarrow> Inr st)"

definition store_Import :: "MPCStateManager \<Rightarrow> string \<Rightarrow> State \<Rightarrow> error + MPCStateManager" where
  "store_Import store sid st = Inr (store(sid \<mapsto> st))"

text \<open>\<^verbatim>\<open>func (m *MPCStateManager) Import(state com_state.State) error\<close>.\<close>

definition MPCStateManager_Import :: "MPCStateManager \<Rightarrow> State \<Rightarrow> error + MPCStateManager" where
  "MPCStateManager_Import mgr st = store_Import mgr (state_ID st) st"

text \<open>\<^verbatim>\<open>func (mgr *MPCStateManager) SetLastRound(ID string, round int) error\<close>.\<close>

definition SetLastRound :: "MPCStateManager \<Rightarrow> string \<Rightarrow> int \<Rightarrow> error + MPCStateManager" where
  "SetLastRound mgr sid rnd =
     (case store_Get mgr sid of
        Inl err \<Rightarrow> Inl err
      | Inr st \<Rightarrow> MPCStateManager_Import mgr (st\<lparr>LastRound := rnd\<rparr>))"

section \<open>ECDSA key encoding (package ecdsa, file ed25519keymanagerimpl\_test.go)\<close>

text \<open>
  The conversions \<^verbatim>\<open>[]byte(s)\<close> and \<^verbatim>\<open>string(b)\<close>, the conversion
  \<^verbatim>\<open>uint8(n)\<close> of a length, which keeps its low eight bits, and the slice
  expression \<^verbatim>\<open>data[lo:hi]\<close> for \<open>lo \<le> hi \<le> length data\<close>.
\<close>

definition bytes_of_string :: "string \<Rightarrow> bytes" where
  "bytes_of_string s = map of_char s"

definition string_of_bytes :: "bytes \<Rightarrow> string" where
  "string_of_bytes bs = map (\<lambda>b. char_of (unat b)) bs"

definition uint8 :: "nat \<Rightarrow> byte" where
  "uint8 n = of_nat n"

definition subslice :: "'a list \<Rightarrow> nat \<Rightarrow> nat \<Rightarrow> 'a list" where
  "subslice data lo hi = take (hi - lo) (drop lo data)"

text \<open>
  \<^verbatim>\<open>func (key ECDSAKey) Bytes() ([]byte, error)\<close>. The first argument holds the
  encoders of the key's point and scalar. Calling \<^verbatim>\<open>Name\<close> on a nil group
  panics.
\<close>

definition ECDSAKey_Bytes :: "'p CurveOps \<Rightarrow> 'p ECDSAKey \<Rightarrow> error + bytes" where
  "ECDSAKey_Bytes G key =
     (case PointMarshalBinary G (pub key) of
        Inl err \<Rightarrow> Inl err
      | Inr pk \<Rightarrow>
          (case group key of
             None \<Rightarrow> Inl (Panic ''invalid memory address or nil pointer dereference'')
           | Some g \<Rightarrow>
               (let gn = Name g;
                    buf = [];
                    buf = buf @ [uint8 (length gn)];
                    buf = buf @ bytes_of_string gn;
                    buf = buf @ [uint8 (length pk)];
                    buf = buf @ pk
                in (case priv key of
                      Some s \<Rightarrow>
                        (case ScalarMarshalBinary G s of
                           Inl err \<Rightarrow> Inl err
                         | Inr sk \<Rightarrow> Inr ((buf @ [uint8 (length sk)]) @ sk))
                    | None \<Rightarrow> Inr buf))))"

text \<open>
  \<^verbatim>\<open>func fromBytes(data []byte) (ECDSAKey, error)\<close>. The first argument holds
  the decoders of \<^verbatim>\<open>curve.Secp256k1\<close>, the only group that the switch on the name
  selects; for any other name \<^verbatim>\<open>group\<close> stays the nil interface and
  \<^verbatim>\<open>group.NewPoint()\<close> panics. The length of the private component is read at
  index \<open>2 + gnLen + pkLen\<close> with no check that the data reach that far: the read
  panics when they end there.
\<close>

definition ECDSAKey_fromBytes :: "'p CurveOps \<Rightarrow> bytes \<Rightarrow> error + 'p ECDSAKey" where
  "ECDSAKey_fromBytes G data =
     (if length data < 2 then Inl ErrInvalidKey
      else
        (let gnLen = unat (data ! 0) in
         if length data < 2 + gnLen then Inl ErrInvalidKey
         else
           (let gn = string_of_bytes (subslice data 1 (1 + gnLen));
                group = (if gn = ''secp256k1'' then Some Secp256k1 else None);
                pkLen = unat (data ! (1 + gnLen))
            in if length data < 2 + gnLen + pkLen then Inl ErrInvalidKey
               else
                 (case group of
                    None \<Rightarrow> Inl (Panic ''invalid memory address or nil pointer dereference'')
                  | Some g \<Rightarrow>
                      (case PointUnmarshalBinary G (subslice data (2 + gnLen) (2 + gnLen + pkLen)) of
                         Inl err \<Rightarrow> Inl err
                       | Inr pk \<Rightarrow>
                           (if length data \<le> 2 + gnLen + pkLen
                            then Inl (Panic ''index out of range'')
                            else
                              (let skLen = unat (data ! (2 + gnLen + pkLen)) in
                               if length data < 2 + gnLen + pkLen + skLen then Inl ErrInvalidKey
                               else
                                 (case ScalarUnmarshalBinary G (drop (3 + gnLen + pkLen) data) of
                                    Inl err \<Rightarrow> Inl err
                                  | Inr sk \<Rightarrow> Inr (NewECDSAKey (Some sk) pk (Some g))))))))))"

section \<open>CMP signing, round 5 (package sign, file unnamed/part\_001)\<close>

text \<open>\<^verbatim>\<open>ecdsa.Signature\<close>, built by the composite literal with fields \<^verbatim>\<open>R\<close> and \<^verbatim>\<open>S\<close>.\<close>

record 'p Signature =
  sig_R :: 'p
  sig_S :: nat

text \<open>
  \<^verbatim>\<open>type round5 struct\<close> with the fields of the rounds it embeds that round 5
  reads: the helper, and \<^verbatim>\<open>PublicKey\<close> and \<^verbatim>\<open>Message\<close> of round 1. The
  scalar field \<^verbatim>\<open>R\<close> is written \<open>R_x\<close>.
\<close>

record 'p sign_round5 = Helper +
  PublicKey :: 'p
  Message :: bytes
  SigmaShares :: "(party_id, nat) gomap"
  Delta :: nat
  BigDelta :: 'p
  BigR :: 'p
  R_x :: nat
  MessageBroadcasted :: "(party_id, bool) gomap"

text \<open>\<^verbatim>\<open>func (r *round5) StoreBroadcastMessage(msg round.Message) error\<close>.\<close>

definition sign_round5_StoreBroadcastMessage ::
  "'p sign_round5 \<Rightarrow> nat message \<Rightarrow> 'p sign_round5 \<times> error option" where
  "sign_round5_StoreBroadcastMessage r msg =
     (case Content msg of
        OtherContent \<Rightarrow> (r, Some ErrInvalidContent)
      | NilBody \<Rightarrow> (r, Some ErrInvalidContent)
      | Body SigmaShare \<Rightarrow>
          (if IsZero SigmaShare then (r, Some ErrNilFields)
           else
             (r\<lparr>SigmaShares := AList.update (From msg) SigmaShare (SigmaShares r),
                MessageBroadcasted := AList.update (From msg) True (MessageBroadcasted r)\<rparr>,
              None)))"

text \<open>
  The loop \<^verbatim>\<open>for _, j := range r.PartyIDs() { Sigma.Add(r.SigmaShares[j]) }\<close>,
  with the accumulator as last argument. A party without an entry yields the nil
  scalar, on which \<^verbatim>\<open>Add\<close> panics.
\<close>

fun sum_SigmaShares ::
  "'p CurveOps \<Rightarrow> (party_id, nat) gomap \<Rightarrow> party_id list \<Rightarrow> nat \<Rightarrow> error + nat" where
  "sum_SigmaShares G shares [] sigma = Inr sigma"
| "sum_SigmaShares G shares (j # js) sigma =
     (case map_of shares j of
        None \<Rightarrow> Inl (Panic ''nil scalar'')
      | Some share \<Rightarrow> sum_SigmaShares G shares js (ScalarAdd G sigma share))"

text \<open>
  \<^verbatim>\<open>func (r *round5) Finalize(chan<- *round.Message) (round.Session, error)\<close>.
  \<^verbatim>\<open>signature.Verify\<close> of package \<^verbatim>\<open>ecdsa\<close> is the first argument.
\<close>

definition sign_round5_Finalize ::
  "('p Signature \<Rightarrow> 'p \<Rightarrow> bytes \<Rightarrow> bool) \<Rightarrow> 'p CurveOps \<Rightarrow> 'p sign_round5
     \<Rightarrow> ('p sign_round5, unit, 'p Signature) session \<times> error option" where
  "sign_round5_Finalize Verify G r =
     (if len (MessageBroadcasted r) \<noteq> N r - 1 then (NoSession, Some ErrNotEnoughMessages)
      else
        (case sum_SigmaShares G (SigmaShares r) (PartyIDs r) (NewScalar G) of
           Inl err \<Rightarrow> (NoSession, Some err)
         | Inr sigma \<Rightarrow>
             (let signature = \<lparr>sig_R = BigR r, sig_S = sigma\<rparr> in
              if \<not> Verify signature (PublicKey r) (Message r)
              then (AbortRound (Err ''failed to validate signature''), None)
              else (ResultRound signature, None))))"

text \<open>\<^verbatim>\<open>func (r *round5) CanFinalize() bool\<close>.\<close>

definition sign_round5_CanFinalize :: "'p sign_round5 \<Rightarrow> bool" where
  "sign_round5_CanFinalize r = (len (MessageBroadcasted r) = N r - 1)"

text \<open>
  For evaluation: a verification predicate on the one-byte curve that accepts
  \<open>(R, s)\<close> under the public key \<open>X\<close> when \<open>s \<cdot> R = X\<close>, and round 5 of party
  \<open>a\<close> in a two-party session holding both sigma shares, the one of \<open>b\<close> received by
  broadcast.
\<close>

definition Z7_Verify :: "nat Signature \<Rightarrow> nat \<Rightarrow> bytes \<Rightarrow> bool" where
  "Z7_Verify sg X m = (Act Z7 (sig_S sg) (sig_R sg) = X)"

definition sign_round5_ready :: "nat sign_round5" where
  "sign_round5_ready =
     \<lparr>ID = ''s1'', SelfID = ''a'', PartyIDs = [''a'', ''b''], Threshold = 1, Group = Secp256k1,
      PublicKey = 6, Message = [0], SigmaShares = [(''a'', 5), (''b'', 4)], Delta = 1,
      BigDelta = 1, BigR = 3, R_x = 3, MessageBroadcasted = [(''b'', True)]\<rparr>"

section \<open>FROST signing, round 2 (package sign, file keystore.go)\<close>

text \<open>The two commitments \<^verbatim>\<open>D\<close> and \<^verbatim>\<open>E\<close> of \<^verbatim>\<open>type broadcast2 struct\<close>.\<close>

record 'p sign_broadcast2 =
  nonce_D :: 'p
  nonce_E :: 'p

record 'p sign_round2 = Helper +
  bcstmgr :: MessageManager
  sign_d :: "'p ECDSAKey manager"
  sign_e :: "'p ECDSAKey manager"

text \<open>
  \<^verbatim>\<open>func (r *round2) StoreBroadcastMessage(msg round.Message) error\<close>. The
  result is the round as the call leaves it (the stores behind its managers are
  mutated in place) together with the returned error, \<open>None\<close> for nil.
\<close>

definition sign_round2_StoreBroadcastMessage ::
  "'p CurveOps \<Rightarrow> 'p sign_round2 \<Rightarrow> 'p sign_broadcast2 message
     \<Rightarrow> 'p sign_round2 \<times> error option" where
  "sign_round2_StoreBroadcastMessage G r msg =
     (case Content msg of
        OtherContent \<Rightarrow> (r, Some ErrInvalidContent)
      | NilBody \<Rightarrow> (r, Some ErrInvalidContent)
      | Body body \<Rightarrow>
          (if IsIdentity G (nonce_D body) \<or> IsIdentity G (nonce_E body)
           then (r, Some (Err ''nonce commitment is the identity point''))
           else
             (let opts = (ID r, From msg);
                  dk = NewECDSAKey None (nonce_D body) (Some (Group r))
              in (case ImportKey (sign_d r) dk opts of
                    Inl err \<Rightarrow> (r, Some err)
                  | Inr sign_d' \<Rightarrow>
                      (let r1 = r\<lparr>sign_d := sign_d'\<rparr>;
                           ek = NewECDSAKey None (nonce_E body) (Some (Group r))
                       in (case ImportKey (sign_e r) ek opts of
                             Inl err \<Rightarrow> (r1, Some err)
                           | Inr sign_e' \<Rightarrow> (r1\<lparr>sign_e := sign_e'\<rparr>, None)))))))"

text \<open>\<^verbatim>\<open>func (r *round2) CanFinalize() bool\<close> of the signing round.\<close>

definition sign_round2_CanFinalize :: "'p sign_round2 \<Rightarrow> bool" where
  "sign_round2_CanFinalize r = True"

text \<open>
  A two-party signing session of party \<open>a\<close> with nothing received yet, and two
  round-2 broadcasts of the peer \<open>b\<close>.
\<close>

definition sign_round2_start :: "nat sign_round2" where
  "sign_round2_start =
     \<lparr>ID = ''s1'', SelfID = ''a'', PartyIDs = [''a'', ''b''], Threshold = 1, Group = Secp256k1,
      bcstmgr = Map.empty, sign_d = Map.empty, sign_e = Map.empty\<rparr>"

definition sign_msg_identity :: "nat sign_broadcast2 message" where
  "sign_msg_identity = \<lparr>From = ''b'', Content = Body \<lparr>nonce_D = 0, nonce_E = 3\<rparr>\<rparr>"

definition sign_msg_good :: "nat sign_broadcast2 message" where
  "sign_msg_good = \<lparr>From = ''b'', Content = Body \<lparr>nonce_D = 2, nonce_E = 3\<rparr>\<rparr>"

section \<open>Paillier key manager (package paillier, file keystore.go)\<close>

text \<open>\<^verbatim>\<open>hex.EncodeToString\<close> of the Go standard library.\<close>

definition hexdigit :: "nat \<Rightarrow> char" where
  "hexdigit n = ''0123456789abcdef'' ! n"

definition hex_EncodeToString :: "bytes \<Rightarrow> string" where
  "hex_EncodeToString bs =
     concat (map (\<lambda>b. [hexdigit (unat b div 16), hexdigit (unat b mod 16)]) bs)"

text \<open>
  \<^verbatim>\<open>type PaillierKey struct\<close> holds two pointers (the composite literal
  \<^verbatim>\<open>PaillierKey{sk, pk}\<close> of \<^verbatim>\<open>GenerateKey\<close>); the zero value
  \<^verbatim>\<open>PaillierKey{}\<close> has both nil.
\<close>

record ('sk, 'pk) PaillierKey =
  secretKey :: "'sk option"
  publicKey :: "'pk option"

definition PaillierKey_zero :: "('sk, 'pk) PaillierKey" where
  "PaillierKey_zero = \<lparr>secretKey = None, publicKey = None\<rparr>"

text \<open>
  \<^verbatim>\<open>type Keystore interface\<close>: the manager only calls \<^verbatim>\<open>Get\<close> and
  \<^verbatim>\<open>Import\<close> of its keystore; the implementation behind the interface is the
  caller's, so both are fields of the manager. The worker pool field \<^verbatim>\<open>pl\<close> plays
  no part in \<^verbatim>\<open>GetKey\<close>.
\<close>

record PaillierKeyManager =
  keystore_Get :: "string \<Rightarrow> error + bytes"
  keystore_Import :: "string \<Rightarrow> bytes \<Rightarrow> error option"

text \<open>
  \<^verbatim>\<open>func (mgr *PaillierKeyManager) GetKey(ski []byte) (PaillierKey, error)\<close>.
  The package's \<^verbatim>\<open>fromBytes\<close> is its first parameter. The result is the pair
  of the Go function's two results; \<open>None\<close> is the nil error.
\<close>

definition PaillierKeyManager_GetKey ::
  "(bytes \<Rightarrow> error + ('sk, 'pk) PaillierKey) \<Rightarrow> PaillierKeyManager \<Rightarrow> bytes
     \<Rightarrow> ('sk, 'pk) PaillierKey \<times> error option" where
  "PaillierKeyManager_GetKey fromBytes mgr ski =
     (let keyID = hex_EncodeToString ski in
      case keystore_Get mgr keyID of
        Inl err \<Rightarrow> (PaillierKey_zero, None)
      | Inr decoded \<Rightarrow>
          (case fromBytes decoded of
             Inl err \<Rightarrow> (PaillierKey_zero, None)
           | Inr key \<Rightarrow> (key, None)))"

section \<open>FROST key generation, round 2 (package keygen, file round2.go)\<close>

text \<open>
  \<^verbatim>\<open>type broadcast2 struct\<close>. \<^verbatim>\<open>VSSPolynomial\<close> is a pointer to an exponent
  polynomial (of any type \<open>'e\<close>) and may be nil.
\<close>

record ('p, 'e) keygen_broadcast2 =
  VSSPolynomial :: "'e option"
  SchnorrCommitment :: 'p
  SchnorrProof :: nat
  Commitment :: bytes

text \<open>
  A commitment as \<^verbatim>\<open>commit_mgr.NewCommitment(commitment, decommitment)\<close> builds
  it; the decommitment is nil until it arrives.
\<close>

record commitment =
  cmt_Commitment :: bytes
  cmt_Decommitment :: "bytes option"

definition NewCommitment :: "bytes \<Rightarrow> bytes option \<Rightarrow> commitment" where
  "NewCommitment c d = \<lparr>cmt_Commitment = c, cmt_Decommitment = d\<rparr>"

text \<open>
  \<^verbatim>\<open>type round2 struct\<close>. The managers are stores keyed by the options key; the
  ECDSA key manager holds a second store for the Schnorr commitments that
  \<^verbatim>\<open>ImportSchnorrCommitment\<close> attaches to a key (\<open>ec_km_schnorr\<close>). The VSS
  keys are of any type \<open>'v\<close>.
\<close>

record ('p, 'v) keygen_round2 = Helper +
  statemgr :: MPCStateManager
  msgmgr :: MessageManager
  bcstmgr :: MessageManager
  ec_km :: "'p ECDSAKey manager"
  ec_km_schnorr :: "'p manager"
  ec_vss_km :: "'p ECDSAKey manager"
  vss_mgr :: "'v manager"
  chainKey_km :: "bytes manager"
  commit_mgr :: "commitment manager"

text \<open>
  The operations of other packages that round 2 calls, as the fields of a record:
  \<^verbatim>\<open>hash.Commitment.Validate\<close>, \<^verbatim>\<open>polynomial.Exponent.Constant\<close>,
  \<^verbatim>\<open>Helper.HashForID\<close>, \<^verbatim>\<open>ECDSAKey.VerifySchnorrProof\<close> (on the hash, the key,
  the Schnorr commitment imported for it and the proof), \<^verbatim>\<open>sw_vss.NewVssKey\<close> with nil
  secrets, \<^verbatim>\<open>VssKey.Evaluate\<close>, \<^verbatim>\<open>VssKey.SKI\<close> and \<^verbatim>\<open>party.ID.Scalar\<close>.
\<close>

record ('p, 'e, 'v, 'h) keygen_env =
  Validate :: "bytes \<Rightarrow> error option"
  Constant :: "'e \<Rightarrow> 'p"
  HashForID :: "party_id \<Rightarrow> 'h"
  VerifySchnorrProof :: "'h \<Rightarrow> 'p ECDSAKey \<Rightarrow> 'p \<Rightarrow> nat \<Rightarrow> error + bool"
  NewVssKey :: "'e \<Rightarrow> 'v"
  Evaluate :: "'v \<Rightarrow> nat \<Rightarrow> error + nat"
  SKI :: "'v \<Rightarrow> bytes"
  Scalar :: "party_id \<Rightarrow> nat"

text \<open>
  The statements that the two \<^verbatim>\<open>StoreBroadcastMessage\<close> of file round2.go share
  word for word, from \<^verbatim>\<open>fromOpts := keyopts.Options{}\<close> to the check of
  \<^verbatim>\<open>verified\<close>: validate and import the commitment, import the sender's public key
  and Schnorr commitment, verify the Schnorr proof.
\<close>

definition keygen_round2_import_and_verify ::
  "('p, 'e, 'v, 'h) keygen_env \<Rightarrow> ('p, 'v) keygen_round2 \<Rightarrow> party_id
     \<Rightarrow> ('p, 'e) keygen_broadcast2 \<Rightarrow> 'e \<Rightarrow> ('p, 'v) keygen_round2 \<times> error option" where
  "keygen_round2_import_and_verify env r from body poly =
     (let fromOpts = (ID r, from) in
      case Validate env (Commitment body) of
        Some err \<Rightarrow> (r, Some err)
      | None \<Rightarrow>
          (let cmt = NewCommitment (Commitment body) None in
           case ImportKey (commit_mgr r) cmt fromOpts of
             Inl err \<Rightarrow> (r, Some err)
           | Inr commit_mgr' \<Rightarrow>
               (let r1 = r\<lparr>commit_mgr := commit_mgr'\<rparr>;
                    pk = Constant env poly;
                    k = NewECDSAKey None pk (Some (Group r))
                in case ImportKey (ec_km r1) k fromOpts of
                     Inl err \<Rightarrow> (r1, Some err)
                   | Inr ec_km' \<Rightarrow>
                       (let r2 = r1\<lparr>ec_km := ec_km'\<rparr> in
                        case ImportKey (ec_km_schnorr r2) (SchnorrCommitment body) fromOpts of
                          Inl err \<Rightarrow> (r2, Some err)
                        | Inr schnorr' \<Rightarrow>
                            (let r3 = r2\<lparr>ec_km_schnorr := schnorr'\<rparr> in
                             case VerifySchnorrProof env (HashForID env from) k
                                    (SchnorrCommitment body) (SchnorrProof body) of
                               Inl err \<Rightarrow> (r3, Some err)
                             | Inr verified \<Rightarrow>
                                 (if \<not> verified
                                  then (r3, Some (Err ''frost.Keygen.Round2: schnorr proof verification failed''))
                                  else (r3, None)))))))"

text \<open>
  \<^verbatim>\<open>func (r *round2) StoreBroadcastMessage(msg round.Message) error\<close>, the first
  one of file round2.go (the round with \<^verbatim>\<open>Finalize\<close>). The round number of
  \<^verbatim>\<open>r.Number()\<close> is 2.
\<close>

definition keygen_round2_StoreBroadcastMessage ::
  "('p, 'e, 'v, 'h) keygen_env \<Rightarrow> 'p CurveOps \<Rightarrow> ('p, 'v) keygen_round2
     \<Rightarrow> ('p, 'e) keygen_broadcast2 message \<Rightarrow> ('p, 'v) keygen_round2 \<times> error option" where
  "keygen_round2_StoreBroadcastMessage env G r msg =
     (case Content msg of
        OtherContent \<Rightarrow> (r, Some ErrInvalidContent)
      | NilBody \<Rightarrow> (r, Some ErrInvalidContent)
      | Body body \<Rightarrow>
          (if IsIdentity G (SchnorrCommitment body)
           then (r, Some (Err ''frost.Keygen.Round2: invalid schnorr commitment''))
           else if IsZero (SchnorrProof body)
           then (r, Some (Err ''frost.Keygen.Round2: invalid schnorr proof''))
           else
             (case VSSPolynomial body of
                None \<Rightarrow> (r, Some (Err ''frost.Keygen.Round2: invalid VSS polynomial''))
              | Some poly \<Rightarrow>
                  (case keygen_round2_import_and_verify env r (From msg) body poly of
                     (r3, Some err) \<Rightarrow> (r3, Some err)
                   | (r3, None) \<Rightarrow>
                       (let vssKey = NewVssKey env poly in
                        case ImportKey (vss_mgr r3) vssKey (ID r, From msg) of
                          Inl err \<Rightarrow> (r3, Some err)
                        | Inr vss_mgr' \<Rightarrow>
                            (let r4 = r3\<lparr>vss_mgr := vss_mgr'\<rparr> in
                             case mm_Import (bcstmgr r4) (ID r, 2, From msg, True) of
                               Inl err \<Rightarrow> (r4, Some err)
                             | Inr bcstmgr' \<Rightarrow> (r4\<lparr>bcstmgr := bcstmgr'\<rparr>, None)))))))"

text \<open>
  \<^verbatim>\<open>func (r *round2) StoreBroadcastMessage(msg round.Message) error\<close>, the second
  one of file round2.go (the draft round, which has neither \<^verbatim>\<open>Finalize\<close> nor
  \<^verbatim>\<open>CanFinalize\<close>).
\<close>

definition keygen_round2_draft_StoreBroadcastMessage ::
  "('p, 'e, 'v, 'h) keygen_env \<Rightarrow> 'p CurveOps \<Rightarrow> ('p, 'v) keygen_round2
     \<Rightarrow> ('p, 'e) keygen_broadcast2 message \<Rightarrow> ('p, 'v) keygen_round2 \<times> error option" where
  "keygen_round2_draft_StoreBroadcastMessage env G r msg =
     (case Content msg of
        OtherContent \<Rightarrow> (r, Some ErrInvalidContent)
      | NilBody \<Rightarrow> (r, Some ErrInvalidContent)
      | Body body \<Rightarrow>
          (if \<not> IsIdentity G (SchnorrCommitment body)
           then (r, Some (Err ''frost.Keygen.Round2: invalid schnorr commitment''))
           else if IsZero (SchnorrProof body)
           then (r, Some (Err ''frost.Keygen.Round2: invalid schnorr proof''))
           else
             (case VSSPolynomial body of
                None \<Rightarrow> (r, Some (Err ''frost.Keygen.Round2: invalid VSS polynomial''))
              | Some poly \<Rightarrow> keygen_round2_import_and_verify env r (From msg) body poly)))"

text \<open>\<^verbatim>\<open>func (r *round2) CanFinalize() bool\<close>.\<close>

definition keygen_round2_CanFinalize :: "('p, 'v) keygen_round2 \<Rightarrow> bool" where
  "keygen_round2_CanFinalize r =
     (let parties = OtherPartyIDs r in
      case HasAll (bcstmgr r) (ID r) 2 parties of
        Inl err \<Rightarrow> False
      | Inr rcvd \<Rightarrow> rcvd)"

text \<open>The messages of round 3 that \<^verbatim>\<open>Finalize\<close> emits.\<close>

datatype keygen_content3 =
    broadcast3 bytes "bytes option"
  | message3 nat

text \<open>
  The loop of \<^verbatim>\<open>Finalize\<close> over \<^verbatim>\<open>r.PartyIDs()\<close>: evaluate the VSS polynomial
  at each party's scalar, send the share to a peer, import the own share. \<open>Inl\<close> is an
  early return with its session, error and channel, \<open>Inr\<close> the round and the
  channel after the last party.
\<close>

fun keygen_round2_shares ::
  "('p, 'e, 'v, 'h) keygen_env \<Rightarrow> 'p CurveOps \<Rightarrow> 'v \<Rightarrow> party_id list
     \<Rightarrow> ('p, 'v) keygen_round2 \<Rightarrow> keygen_content3 out_chan
     \<Rightarrow> ((('p, 'v) keygen_round2, ('p, 'v) keygen_round2, unit) session \<times> error
          \<times> keygen_content3 out_chan)
         + (('p, 'v) keygen_round2 \<times> keygen_content3 out_chan)" where
  "keygen_round2_shares env G vssKey [] r out = Inr (r, out)"
| "keygen_round2_shares env G vssKey (j # js) r out =
     (case Evaluate env vssKey (Scalar env j) of
        Inl err \<Rightarrow> Inl (ThisRound r, err, out)
      | Inr share \<Rightarrow>
          (if j \<noteq> SelfID r
           then
             (case SendMessage r out (message3 share) j of
                Inl err \<Rightarrow> Inl (ThisRound r, err, out)
              | Inr out' \<Rightarrow> keygen_round2_shares env G vssKey js r out')
           else
             (let sharePublic = ActOnBase G share;
                  shareKey = NewECDSAKey (Some share) sharePublic (Some (Group r));
                  vssOpts = (hex_EncodeToString (SKI env vssKey), SelfID r)
              in case ImportKey (ec_vss_km r) shareKey vssOpts of
                   Inl err \<Rightarrow> Inl (NoSession, err, out)
                 | Inr ec_vss_km' \<Rightarrow>
                     keygen_round2_shares env G vssKey js (r\<lparr>ec_vss_km := ec_vss_km'\<rparr>) out)))"

text \<open>
  \<^verbatim>\<open>func (r *round2) Finalize(out chan<- *round.Message) (round.Session, error)\<close>.
  The result is the returned session, the returned error and the output channel as the
  call leaves it. The successor \<^verbatim>\<open>round3\<close> is built from the helper and the managers
  of round 2 and is written as the round-2 record that holds them.
\<close>

definition keygen_round2_Finalize ::
  "('p, 'e, 'v, 'h) keygen_env \<Rightarrow> 'p CurveOps \<Rightarrow> ('p, 'v) keygen_round2
     \<Rightarrow> keygen_content3 out_chan
     \<Rightarrow> (('p, 'v) keygen_round2, ('p, 'v) keygen_round2, unit) session \<times> error option
         \<times> keygen_content3 out_chan" where
  "keygen_round2_Finalize env G r out =
     (if \<not> keygen_round2_CanFinalize r then (NoSession, Some ErrNotEnoughMessages, out)
      else
        (let opts = (ID r, SelfID r) in
         case GetKey (chainKey_km r) opts of
           Inl err \<Rightarrow> (ThisRound r, Some err, out)
         | Inr chainKey \<Rightarrow>
             (case GetKey (commit_mgr r) opts of
                Inl err \<Rightarrow> (ThisRound r, Some err, out)
              | Inr cmt \<Rightarrow>
                  (case BroadcastMessage r out (broadcast3 chainKey (cmt_Decommitment cmt)) of
                     Inl err \<Rightarrow> (ThisRound r, Some err, out)
                   | Inr out1 \<Rightarrow>
                       (case GetKey (vss_mgr r) opts of
                          Inl err \<Rightarrow> (ThisRound r, Some err, out1)
                        | Inr vssKey \<Rightarrow>
                            (case keygen_round2_shares env G vssKey (PartyIDs r) r out1 of
                               Inl (s, err, out2) \<Rightarrow> (s, Some err, out2)
                             | Inr (r1, out2) \<Rightarrow>
                                 (case SetLastRound (statemgr r1) (ID r1) 2 of
                                    Inl err \<Rightarrow> (ThisRound r1, Some err, out2)
                                  | Inr statemgr' \<Rightarrow>
                                      (NextRound (r1\<lparr>statemgr := statemgr'\<rparr>), None, out2))))))))"

text \<open>
  For evaluation on the one-byte curve: an exponent polynomial is the list of its
  coefficient points, a VSS key the pair of its secret coefficients (none for a peer's
  key) and its exponent polynomial, the hash bound to a party is the party's name, and
  the Schnorr proof \<open>z\<close> of the public point \<open>X\<close> with commitment \<open>A\<close> verifies when
  \<open>z \<cdot> G = A + c \<cdot> X\<close> for the challenge \<open>c\<close> drawn from the hash (here its length).
\<close>

fun Z7_eval :: "nat list \<Rightarrow> nat \<Rightarrow> nat" where
  "Z7_eval [] x = 0"
| "Z7_eval (c # cs) x = (c + x * Z7_eval cs x) mod 7"

definition Z7_party_scalar :: "party_id \<Rightarrow> nat" where
  "Z7_party_scalar j = (if j = ''a'' then 1 else if j = ''b'' then 2 else 3)"

definition Z7_keygen_env :: "(nat, nat list, nat list \<times> nat list, string) keygen_env" where
  "Z7_keygen_env =
     \<lparr>Validate = (\<lambda>c. if c = [] then Some (Err ''invalid commitment'') else None),
      Constant = (\<lambda>e. case e of [] \<Rightarrow> 0 | c # cs \<Rightarrow> c),
      HashForID = (\<lambda>j. j),
      VerifySchnorrProof =
        (\<lambda>h k A z. Inr (ActOnBase Z7 z = PointAdd Z7 A (Act Z7 (length h) (pub k)))),
      NewVssKey = (\<lambda>e. ([], e)),
      Evaluate = (\<lambda>v x. if fst v = [] then Inl (Err ''no secrets'') else Inr (Z7_eval (fst v) x)),
      SKI = (\<lambda>v. map of_nat (snd v)),
      Scalar = Z7_party_scalar\<rparr>"

text \<open>
  Round 2 of party \<open>a\<close> in a two-party key generation with nothing received, and two
  broadcasts of the peer \<open>b\<close> for the public polynomial \<open>[3, 5]\<close> (public key \<open>3\<close>,
  challenge \<open>1\<close>): one with the Schnorr commitment \<open>2\<close> and the proof \<open>5 = 2 + 1 \<cdot> 3\<close>,
  one with the identity as commitment and the proof \<open>3 = 0 + 1 \<cdot> 3\<close>.
\<close>

definition keygen_round2_start :: "(nat, nat list \<times> nat list) keygen_round2" where
  "keygen_round2_start =
     \<lparr>ID = ''s1'', SelfID = ''a'', PartyIDs = [''a'', ''b''], Threshold = 1, Group = Secp256k1,
      statemgr = [''s1'' \<mapsto> \<lparr>state_ID = ''s1'', LastRound = 1, Aborted = False, Completed = False\<rparr>],
      msgmgr = Map.empty, bcstmgr = Map.empty, ec_km = Map.empty, ec_km_schnorr = Map.empty,
      ec_vss_km = Map.empty,
      vss_mgr = [(''s1'', ''a'') \<mapsto> ([4, 6], [4, 6])],
      chainKey_km = [(''s1'', ''a'') \<mapsto> [7]],
      commit_mgr = [(''s1'', ''a'') \<mapsto> \<lparr>cmt_Commitment = [9], cmt_Decommitment = Some [8]\<rparr>]\<rparr>"

definition keygen_msg_good :: "(nat, nat list) keygen_broadcast2 message" where
  "keygen_msg_good =
     \<lparr>From = ''b'',
      Content = Body \<lparr>VSSPolynomial = Some [3, 5], SchnorrCommitment = 2, SchnorrProof = 5,
                      Commitment = [1]\<rparr>\<rparr>"

definition keygen_msg_identity :: "(nat, nat list) keygen_broadcast2 message" where
  "keygen_msg_identity =
     \<lparr>From = ''b'',
      Content = Body \<lparr>VSSPolynomial = Some [3, 5], SchnorrCommitment = 0, SchnorrProof = 3,
                      Commitment = [1]\<rparr>\<rparr>"

section \<open>CMP key generation, round 3 (package keygen, file round3.go)\<close>

text \<open>
  Modelled from the spec: \<^verbatim>\<open>types.RID\<close>, a fixed-length (32-byte) random identifier.
  \<^verbatim>\<open>EmptyRID\<close> is the zero identifier, \<^verbatim>\<open>Validate\<close> rejects all-zero and
  wrong-length values, and \<^verbatim>\<open>XOR\<close> replaces every byte of the receiver by its
  exclusive or with the byte of the argument at the same index, which panics when the
  argument is the shorter one.
\<close>

definition EmptyRID :: bytes where
  "EmptyRID = replicate 32 0"

definition RID_Validate :: "bytes \<Rightarrow> error option" where
  "RID_Validate rid =
     (if length rid \<noteq> 32 then Some (Err ''rid: incorrect length'')
      else if list_all (\<lambda>b. b = 0) rid then Some (Err ''rid: rid is 0'')
      else None)"

definition RID_XOR :: "bytes \<Rightarrow> bytes \<Rightarrow> error + bytes" where
  "RID_XOR rid otherRID =
     (if length otherRID < length rid then Inl (Panic ''index out of range'')
      else Inr (map2 (XOR) rid otherRID))"

text \<open>
  \<^verbatim>\<open>type broadcast3 struct\<close>: the two identifiers, the byte encodings of the
  sender's keys and VSS polynomial, the Schnorr commitment and the decommitment.
\<close>

record 'p cmp_broadcast3 =
  RID :: bytes
  C :: bytes
  EcdsaKey :: bytes
  VSSPolynomial :: bytes
  SchnorrCommitments :: 'p
  ElgamalKey :: bytes
  PaillierKey :: bytes
  PedersenKey :: bytes
  Decommitment :: bytes

text \<open>
  What the ECDSA key manager holds for a party: the key as imported, and the VSS
  polynomial and the Schnorr commitment that \<^verbatim>\<open>ImportVSSSecrets\<close> and
  \<^verbatim>\<open>ImportSchnorrCommitment\<close> attach to it. An exponent polynomial is the list of
  its coefficient points.
\<close>

record 'p ecdsa_entry =
  entry_key :: bytes
  entry_vss :: "'p list option"
  entry_schnorr :: "'p option"

text \<open>The key of the session in the MPC keystore, with the two fields round 3 sets.\<close>

record MPCKey =
  mpc_ID :: string
  mpc_RID :: "bytes option"
  mpc_ChainKey :: "bytes option"

text \<open>
  \<^verbatim>\<open>type round3 struct\<close> with the fields of the rounds it embeds that round 3
  uses: the helper with the transcript hash (of any type \<open>'h\<close>),
  \<^verbatim>\<open>PreviousChainKey\<close> (nil for a fresh key generation) and the managers. The
  managers of Paillier, Pedersen and ElGamal keys hold the keys in their byte encoding.
\<close>

record ('p, 'h) cmp_round3 = Helper +
  Hash :: 'h
  PreviousChainKey :: "bytes option"
  mpc_ks :: "string \<rightharpoonup> MPCKey"
  rid_km :: "bytes manager"
  chainKey_km :: "bytes manager"
  paillier_km :: "bytes manager"
  pedersen_km :: "bytes manager"
  elgamal_km :: "bytes manager"
  ecdsa_km :: "'p ecdsa_entry manager"
  commit_mgr :: "commitment manager"
  MessageBroadcasted :: "(party_id, bool) gomap"

text \<open>
  The operations of other packages that round 3 calls, as the fields of a record:
  \<^verbatim>\<open>hash.Decommitment.Validate\<close>; the checks that the key managers make on the
  encoding of a key they import; the decoding of a VSS polynomial by
  \<^verbatim>\<open>ImportVSSSecrets\<close>; \<^verbatim>\<open>Hash.Decommit\<close> on a clone of the transcript hash,
  with its arguments in the order of the call; \<^verbatim>\<open>WriteAny(rid, SelfID)\<close> on a clone
  and \<^verbatim>\<open>UpdateHashState(rid)\<close>; the three proof generators on the hash and the
  keys they read; \<^verbatim>\<open>VssKey.Evaluate\<close> of the local secret polynomial,
  \<^verbatim>\<open>party.ID.Scalar\<close> and the Paillier encryption under a peer's key.
\<close>

record ('p, 'h, 'ct, 'zk) cmp_env3 =
  Decommitment_Validate :: "bytes \<Rightarrow> error option"
  PaillierKey_check :: "bytes \<Rightarrow> error option"
  PedersenKey_check :: "bytes \<Rightarrow> error option"
  EcdsaKey_check :: "bytes \<Rightarrow> error option"
  ElgamalKey_check :: "bytes \<Rightarrow> error option"
  VSS_decode :: "bytes \<Rightarrow> error + 'p list"
  Decommit :: "'h \<Rightarrow> bytes \<Rightarrow> bytes \<Rightarrow> bytes \<Rightarrow> bytes \<Rightarrow> 'p list \<Rightarrow> bytes \<Rightarrow> bytes \<Rightarrow> 'p \<Rightarrow> bool"
  WriteAny_rid :: "'h \<Rightarrow> bytes \<Rightarrow> party_id \<Rightarrow> 'h"
  UpdateHashState_rid :: "'h \<Rightarrow> bytes \<Rightarrow> 'h"
  NewZKModProof :: "bytes \<Rightarrow> 'h \<Rightarrow> 'zk"
  NewProof :: "bytes \<Rightarrow> 'h \<Rightarrow> 'zk"
  NewZKFACProof :: "bytes \<Rightarrow> 'h \<Rightarrow> bytes \<Rightarrow> 'zk"
  Evaluate3 :: "'p ecdsa_entry \<Rightarrow> nat \<Rightarrow> error + nat"
  Scalar3 :: "party_id \<Rightarrow> nat"
  Encode :: "bytes \<Rightarrow> int \<Rightarrow> 'ct"

text \<open>
  Modelled from the spec: a manager that imports a key from its byte encoding checks the
  encoding and stores it under the options key, by the rule of \<open>ImportKey\<close>.
\<close>

definition ImportKeyBytes ::
  "(bytes \<Rightarrow> error option) \<Rightarrow> bytes manager \<Rightarrow> opts \<Rightarrow> bytes \<Rightarrow> error + bytes manager" where
  "ImportKeyBytes check km opts raw =
     (case check raw of Some err \<Rightarrow> Inl err | None \<Rightarrow> ImportKey km raw opts)"

text \<open>
  Modelled from the spec: an update of a stored object replaces the stored entry. This
  is \<^verbatim>\<open>commit_mgr.Import\<close> of a commitment that \<^verbatim>\<open>commit_mgr.Get\<close> returned
  and whose decommitment was set, and \<^verbatim>\<open>mpc_ks.Update\<close>, which fails for a key that
  is not in the store.
\<close>

definition commit_Import :: "commitment manager \<Rightarrow> opts \<Rightarrow> commitment \<Rightarrow> error + commitment manager" where
  "commit_Import km opts cmt = Inr (km(opts \<mapsto> cmt))"

definition mpc_ks_Get :: "(string \<rightharpoonup> MPCKey) \<Rightarrow> string \<Rightarrow> error + MPCKey" where
  "mpc_ks_Get ks kid = (case ks kid of None \<Rightarrow> Inl (Err ''key not found'') | Some k \<Rightarrow> Inr k)"

definition mpc_ks_Update :: "(string \<rightharpoonup> MPCKey) \<Rightarrow> MPCKey \<Rightarrow> error + (string \<rightharpoonup> MPCKey)" where
  "mpc_ks_Update ks k =
     (case ks (mpc_ID k) of
        None \<Rightarrow> Inl (Err ''key not found'')
      | Some old \<Rightarrow> Inr (ks(mpc_ID k \<mapsto> k)))"

text \<open>
  The imports of \<^verbatim>\<open>StoreBroadcastMessage\<close> from
  \<^verbatim>\<open>r.rid_km.ImportKey\<close> to \<^verbatim>\<open>r.elgamal_km.ImportKey\<close>, in the order of the
  source. The result is the round as the imports leave it and either the error
  returned or the sender's exponent polynomial \<^verbatim>\<open>exponentsFrom\<close>.
\<close>

definition cmp_round3_imports ::
  "('p, 'h, 'ct, 'zk) cmp_env3 \<Rightarrow> ('p, 'h) cmp_round3 \<Rightarrow> party_id \<Rightarrow> 'p cmp_broadcast3
     \<Rightarrow> ('p, 'h) cmp_round3 \<times> (error + 'p list)" where
  "cmp_round3_imports env r from body =
     (let opts = (ID r, from) in
      case ImportKeyBytes RID_Validate (rid_km r) opts (RID body) of
        Inl err \<Rightarrow> (r, Inl err)
      | Inr rid_km' \<Rightarrow>
     (let r1 = r\<lparr>rid_km := rid_km'\<rparr> in
      case ImportKeyBytes RID_Validate (chainKey_km r1) opts (C body) of
        Inl err \<Rightarrow> (r1, Inl err)
      | Inr chainKey_km' \<Rightarrow>
     (let r2 = r1\<lparr>chainKey_km := chainKey_km'\<rparr> in
      case ImportKeyBytes (PaillierKey_check env) (paillier_km r2) opts (PaillierKey body) of
        Inl err \<Rightarrow> (r2, Inl err)
      | Inr paillier_km' \<Rightarrow>
     (let r3 = r2\<lparr>paillier_km := paillier_km'\<rparr> in
      case ImportKeyBytes (PedersenKey_check env) (pedersen_km r3) opts (PedersenKey body) of
        Inl err \<Rightarrow> (r3, Inl err)
      | Inr pedersen_km' \<Rightarrow>
     (let r4 = r3\<lparr>pedersen_km := pedersen_km'\<rparr> in
      case EcdsaKey_check env (EcdsaKey body) of
        Some err \<Rightarrow> (r4, Inl err)
      | None \<Rightarrow>
     (let fromKey = \<lparr>entry_key = EcdsaKey body, entry_vss = None, entry_schnorr = None\<rparr> in
      case ImportKey (ecdsa_km r4) fromKey opts of
        Inl err \<Rightarrow> (r4, Inl err)
      | Inr ecdsa_km' \<Rightarrow>
     (let r5 = r4\<lparr>ecdsa_km := ecdsa_km'\<rparr> in
      case VSS_decode env (VSSPolynomial body) of
        Inl err \<Rightarrow> (r5, Inl err)
      | Inr exponents \<Rightarrow>
     (let fromKey1 = fromKey\<lparr>entry_vss := Some exponents\<rparr>;
          fromKey2 = fromKey1\<lparr>entry_schnorr := Some (SchnorrCommitments body)\<rparr>;
          r6 = r5\<lparr>ecdsa_km := (ecdsa_km r5)(opts \<mapsto> fromKey2)\<rparr>
      in case entry_vss fromKey2 of
           None \<Rightarrow> (r6, Inl (Err ''no vss key''))
         | Some exponentsFrom \<Rightarrow>
             (case ImportKeyBytes (ElgamalKey_check env) (elgamal_km r6) opts (ElgamalKey body) of
                Inl err \<Rightarrow> (r6, Inl err)
              | Inr elgamal_km' \<Rightarrow> (r6\<lparr>elgamal_km := elgamal_km'\<rparr>, Inr exponentsFrom))))))))))"

text \<open>
  \<^verbatim>\<open>func (r *round3) StoreBroadcastMessage(msg round.Message) error\<close>. The checks
  of the degree and of the constant coefficient of the VSS polynomial are comments in
  the source and are no part of the function.
\<close>

definition cmp_round3_StoreBroadcastMessage ::
  "('p, 'h, 'ct, 'zk) cmp_env3 \<Rightarrow> ('p, 'h) cmp_round3 \<Rightarrow> 'p cmp_broadcast3 message
     \<Rightarrow> ('p, 'h) cmp_round3 \<times> error option" where
  "cmp_round3_StoreBroadcastMessage env r msg =
     (case Content msg of
        OtherContent \<Rightarrow> (r, Some ErrInvalidContent)
      | NilBody \<Rightarrow> (r, Some ErrInvalidContent)
      | Body body \<Rightarrow>
          (case RID_Validate (RID body) of
             Some err \<Rightarrow> (r, Some (Wrapped ''rid'' err))
           | None \<Rightarrow>
          (case RID_Validate (C body) of
             Some err \<Rightarrow> (r, Some (Wrapped ''chainkey'' err))
           | None \<Rightarrow>
          (case Decommitment_Validate env (Decommitment body) of
             Some err \<Rightarrow> (r, Some err)
           | None \<Rightarrow>
          (case cmp_round3_imports env r (From msg) body of
             (r1, Inl err) \<Rightarrow> (r1, Some err)
           | (r1, Inr exponentsFrom) \<Rightarrow>
          (case GetKey (commit_mgr r1) (ID r, From msg) of
             Inl err \<Rightarrow> (r1, Some err)
           | Inr cmt0 \<Rightarrow>
          (let cmt = cmt0\<lparr>cmt_Decommitment := Some (Decommitment body)\<rparr> in
           case commit_Import (commit_mgr r1) (ID r, From msg) cmt of
             Inl err \<Rightarrow> (r1, Some err)
           | Inr commit_mgr' \<Rightarrow>
          (let r2 = r1\<lparr>commit_mgr := commit_mgr'\<rparr> in
           if \<not> Decommit env (Hash r) (cmt_Commitment cmt) (Decommitment body) (RID body) (C body)
                  exponentsFrom (ElgamalKey body) (PedersenKey body) (SchnorrCommitments body)
           then (r2, Some (Err ''failed to decommit''))
           else (r2\<lparr>MessageBroadcasted := AList.update (From msg) True (MessageBroadcasted r2)\<rparr>,
                 None)))))))))"

text \<open>
  The two loops of \<^verbatim>\<open>Finalize\<close> that fold the parties' contributions into an
  identifier with \<^verbatim>\<open>XOR\<close>, over a manager of identifiers and with the accumulator
  as last argument: \<^verbatim>\<open>chainKey.XOR(ck.Raw())\<close> over \<^verbatim>\<open>chainKey_km\<close> and
  \<^verbatim>\<open>rid.XOR(rj.Raw())\<close> over \<^verbatim>\<open>rid_km\<close>.
\<close>

fun xor_parties :: "bytes manager \<Rightarrow> string \<Rightarrow> party_id list \<Rightarrow> bytes \<Rightarrow> error + bytes" where
  "xor_parties km sid [] acc = Inr acc"
| "xor_parties km sid (j # js) acc =
     (case GetKey km (sid, j) of
        Inl err \<Rightarrow> Inl err
      | Inr k \<Rightarrow>
          (case RID_XOR acc k of
             Inl err \<Rightarrow> Inl err
           | Inr acc' \<Rightarrow> xor_parties km sid js acc'))"

text \<open>
  The part of \<^verbatim>\<open>Finalize\<close> from \<^verbatim>\<open>chainKey := r.PreviousChainKey\<close> to the end
  of the loop over the RIDs: the pair of \<^verbatim>\<open>chainKey\<close> and \<^verbatim>\<open>rid\<close>, or the error
  returned.
\<close>

definition cmp_round3_chainKey_rid :: "('p, 'h) cmp_round3 \<Rightarrow> error + (bytes \<times> bytes)" where
  "cmp_round3_chainKey_rid r =
     (case (case PreviousChainKey r of
              Some chainKey \<Rightarrow> Inr chainKey
            | None \<Rightarrow> xor_parties (chainKey_km r) (ID r) (PartyIDs r) EmptyRID) of
        Inl err \<Rightarrow> Inl err
      | Inr chainKey \<Rightarrow>
          (case xor_parties (rid_km r) (ID r) (PartyIDs r) EmptyRID of
             Inl err \<Rightarrow> Inl err
           | Inr rid \<Rightarrow> Inr (chainKey, rid)))"

text \<open>The messages of round 4 that \<^verbatim>\<open>Finalize\<close> emits.\<close>

datatype ('ct, 'zk) cmp_content4 =
    broadcast4 'zk 'zk
  | message4 'ct 'zk

text \<open>
  The loop of \<^verbatim>\<open>Finalize\<close> over \<^verbatim>\<open>r.OtherPartyIDs()\<close>: encrypt the share of
  each peer under its Paillier key and send it with the proof. \<open>Inl\<close> is an early
  return with its session, error and channel.
\<close>

fun cmp_round3_send_shares ::
  "('p, 'h, 'ct, 'zk) cmp_env3 \<Rightarrow> ('p, 'h) cmp_round3 \<Rightarrow> 'h \<Rightarrow> bytes \<Rightarrow> 'p ecdsa_entry
     \<Rightarrow> party_id list \<Rightarrow> ('ct, 'zk) cmp_content4 out_chan
     \<Rightarrow> ((('p, 'h) cmp_round3, ('p, 'h) cmp_round3, unit) session \<times> error
          \<times> ('ct, 'zk) cmp_content4 out_chan)
         + ('ct, 'zk) cmp_content4 out_chan" where
  "cmp_round3_send_shares env r h pk vssKey [] out = Inr out"
| "cmp_round3_send_shares env r h pk vssKey (j # js) out =
     (case GetKey (pedersen_km r) (ID r, j) of
        Inl err \<Rightarrow> Inl (NoSession, err, out)
      | Inr pedj \<Rightarrow>
     (case GetKey (paillier_km r) (ID r, j) of
        Inl err \<Rightarrow> Inl (NoSession, err, out)
      | Inr paillierj \<Rightarrow>
     (let fac = NewZKFACProof env pk h pedj in
      case Evaluate3 env vssKey (Scalar3 env j) of
        Inl err \<Rightarrow> Inl (NoSession, err, out)
      | Inr share \<Rightarrow>
     (let ct = Encode env paillierj (int share) in
      case SendMessage r out (message4 ct fac) j of
        Inl err \<Rightarrow> Inl (ThisRound r, err, out)
      | Inr out' \<Rightarrow> cmp_round3_send_shares env r h pk vssKey js out'))))"

text \<open>
  \<^verbatim>\<open>func (r *round3) Finalize(out chan<- *round.Message) (round.Session, error)\<close>.
  The result is the returned session, the returned error, the output channel and the
  round as the call leaves them. The successor \<^verbatim>\<open>round4\<close> embeds round 3 and starts
  with two empty maps; it is written as the round-3 record it embeds.
\<close>

definition cmp_round3_Finalize ::
  "('p, 'h, 'ct, 'zk) cmp_env3 \<Rightarrow> ('p, 'h) cmp_round3 \<Rightarrow> ('ct, 'zk) cmp_content4 out_chan
     \<Rightarrow> (('p, 'h) cmp_round3, ('p, 'h) cmp_round3, unit) session \<times> error option
         \<times> ('ct, 'zk) cmp_content4 out_chan \<times> ('p, 'h) cmp_round3" where
  "cmp_round3_Finalize env r out =
     (if len (MessageBroadcasted r) \<noteq> N r - 1 then (NoSession, Some ErrNotEnoughMessages, out, r)
      else
     (case mpc_ks_Get (mpc_ks r) (ID r) of
        Inl err \<Rightarrow> (NoSession, Some err, out, r)
      | Inr mpckey \<Rightarrow>
     (case cmp_round3_chainKey_rid r of
        Inl err \<Rightarrow> (NoSession, Some err, out, r)
      | Inr (chainKey, rid) \<Rightarrow>
     (case mpc_ks_Update (mpc_ks r) (mpckey\<lparr>mpc_ChainKey := Some chainKey, mpc_RID := Some rid\<rparr>) of
        Inl err \<Rightarrow> (NoSession, Some err, out, r)
      | Inr mpc_ks' \<Rightarrow>
     (let r1 = r\<lparr>mpc_ks := mpc_ks'\<rparr>;
          h = WriteAny_rid env (Hash r1) rid (SelfID r1)
      in case GetKey (paillier_km r1) (ID r1, SelfID r1) of
           Inl err \<Rightarrow> (NoSession, Some err, out, r1)
         | Inr pk \<Rightarrow>
     (let mod_proof = NewZKModProof env pk h in
      case GetKey (pedersen_km r1) (ID r1, SelfID r1) of
        Inl err \<Rightarrow> (NoSession, Some err, out, r1)
      | Inr ped \<Rightarrow>
     (let prm = NewProof env ped h in
      case BroadcastMessage r1 out (broadcast4 mod_proof prm) of
        Inl err \<Rightarrow> (ThisRound r1, Some err, out, r1)
      | Inr out1 \<Rightarrow>
     (case GetKey (ecdsa_km r1) (ID r1, SelfID r1) of
        Inl err \<Rightarrow> (NoSession, Some err, out1, r1)
      | Inr vssKey \<Rightarrow>
     (case cmp_round3_send_shares env r1 h pk vssKey (OtherPartyIDs r1) out1 of
        Inl (s, err, out2) \<Rightarrow> (s, Some err, out2, r1)
      | Inr out2 \<Rightarrow>
     (let r2 = r1\<lparr>Hash := UpdateHashState_rid env (Hash r1) rid\<rparr>
      in (NextRound r2, None, out2, r2)))))))))))"

text \<open>\<^verbatim>\<open>func (r *round3) CanFinalize() bool\<close>.\<close>

definition cmp_round3_CanFinalize :: "('p, 'h) cmp_round3 \<Rightarrow> bool" where
  "cmp_round3_CanFinalize r = (len (MessageBroadcasted r) = N r - 1)"

text \<open>
  For evaluation on the one-byte curve: a VSS polynomial is encoded with one byte for
  each coefficient point; the transcript hash is the list of the byte strings written
  to it; a commitment opens when digest and decommitment agree; the proofs are numbers;
  the local secret polynomial is read off the exponent polynomial (a point of the
  one-byte curve is written as its discrete logarithm); and the stand-in for the
  Paillier encryption leaves the plaintext as it is.
\<close>

definition Z7_check :: "bytes \<Rightarrow> error option" where
  "Z7_check k = (if k = [] then Some (Err ''invalid encoding'') else None)"

definition Z7_VSS_decode :: "bytes \<Rightarrow> error + nat list" where
  "Z7_VSS_decode bs =
     (if bs \<noteq> [] \<and> list_all (\<lambda>b. unat b < 7) bs then Inr (map unat bs)
      else Inl (Err ''invalid encoding''))"

definition Z7_env3 :: "(nat, bytes list, int, nat) cmp_env3" where
  "Z7_env3 =
     \<lparr>Decommitment_Validate = Z7_check,
      PaillierKey_check = Z7_check,
      PedersenKey_check = Z7_check,
      EcdsaKey_check = Z7_check,
      ElgamalKey_check = Z7_check,
      VSS_decode = Z7_VSS_decode,
      Decommit = (\<lambda>h c d rid ck exps eg ped A. c = d),
      WriteAny_rid = (\<lambda>h rid j. h @ [rid, bytes_of_string j]),
      UpdateHashState_rid = (\<lambda>h rid. h @ [rid]),
      NewZKModProof = (\<lambda>pk h. 0),
      NewProof = (\<lambda>ped h. 1),
      NewZKFACProof = (\<lambda>pk h ped. 2),
      Evaluate3 = (\<lambda>e x. case entry_vss e of
                             None \<Rightarrow> Inl (Err ''no secrets'')
                           | Some cs \<Rightarrow> Inr (Z7_eval cs x)),
      Scalar3 = Z7_party_scalar,
      Encode = (\<lambda>k m. m)\<rparr>"

text \<open>
  Round 3 of party \<open>a\<close> in a two-party key generation with threshold 1, holding its
  own contributions and the commitment of the peer \<open>b\<close>; and the round-3 broadcast of
  \<open>b\<close> whose VSS polynomial \<open>[3, 5, 6]\<close> has three coefficients, that is degree 2.
\<close>

definition cmp_round3_start :: "(nat, bytes list) cmp_round3" where
  "cmp_round3_start =
     \<lparr>ID = ''s1'', SelfID = ''a'', PartyIDs = [''a'', ''b''], Threshold = 1, Group = Secp256k1,
      Hash = [],
      PreviousChainKey = None,
      mpc_ks = [''s1'' \<mapsto> \<lparr>mpc_ID = ''s1'', mpc_RID = None, mpc_ChainKey = None\<rparr>],
      rid_km = [(''s1'', ''a'') \<mapsto> replicate 32 1],
      chainKey_km = [(''s1'', ''a'') \<mapsto> replicate 32 5],
      paillier_km = [(''s1'', ''a'') \<mapsto> [1]],
      pedersen_km = [(''s1'', ''a'') \<mapsto> [2]],
      elgamal_km = [(''s1'', ''a'') \<mapsto> [3]],
      ecdsa_km = [(''s1'', ''a'') \<mapsto>
                   \<lparr>entry_key = [4], entry_vss = Some [4, 6], entry_schnorr = Some 2\<rparr>],
      commit_mgr = [(''s1'', ''a'') \<mapsto> \<lparr>cmt_Commitment = [9], cmt_Decommitment = Some [9]\<rparr>,
                    (''s1'', ''b'') \<mapsto> \<lparr>cmt_Commitment = [8], cmt_Decommitment = None\<rparr>],
      MessageBroadcasted = []\<rparr>"

definition cmp_msg3_degree2 :: "nat cmp_broadcast3 message" where
  "cmp_msg3_degree2 =
     \<lparr>From = ''b'',
      Content = Body \<lparr>RID = replicate 32 2, C = replicate 32 9, EcdsaKey = [5],
                      VSSPolynomial = [3, 5, 6], SchnorrCommitments = 2, ElgamalKey = [6],
                      PaillierKey = [7], PedersenKey = [8], Decommitment = [8]\<rparr>\<rparr>"

text \<open>Round 3 of party \<open>a\<close> after it has stored the broadcast of \<open>b\<close>.\<close>

definition cmp_round3_ready :: "(nat, bytes list) cmp_round3" where
  "cmp_round3_ready =
     fst (cmp_round3_StoreBroadcastMessage Z7_env3 cmp_round3_start cmp_msg3_degree2)"

section \<open>CMP key generation, round 4 (package keygen, file round4.go)\<close>

text \<open>
  Modelled from the spec: a VSS key holds the sender's exponent polynomial, the list of
  its coefficient points, and the shares received for it, by the scalar they were
  evaluated at. Evaluation in the exponent yields the public point of a share:
  \<open>F(x) = F\<^sub>0 + x \<cdot> (F\<^sub>1 + x \<cdot> (\<dots>))\<close>. \<^verbatim>\<open>ImportShare\<close> stores a share and never
  overwrites a different one; \<^verbatim>\<open>GetShare\<close> fails when there is none;
  \<^verbatim>\<open>polynomial.Sum\<close> adds exponent polynomials of one length coefficient by
  coefficient.
\<close>

record 'p VssKey =
  vss_exponents :: "'p list"
  vss_shares :: "(nat, nat) gomap"

fun exponent_Evaluate :: "'p CurveOps \<Rightarrow> 'p list \<Rightarrow> nat \<Rightarrow> 'p" where
  "exponent_Evaluate G [] x = NewPoint G"
| "exponent_Evaluate G (c # cs) x = PointAdd G c (Act G x (exponent_Evaluate G cs x))"

definition EvaluateByExponents :: "'p CurveOps \<Rightarrow> 'p VssKey \<Rightarrow> nat \<Rightarrow> error + 'p" where
  "EvaluateByExponents G vssKey x = Inr (exponent_Evaluate G (vss_exponents vssKey) x)"

definition ExponentsRaw :: "'p VssKey \<Rightarrow> error + 'p list" where
  "ExponentsRaw vssKey = Inr (vss_exponents vssKey)"

definition ImportShare :: "'p VssKey \<Rightarrow> nat \<Rightarrow> nat \<Rightarrow> error + 'p VssKey" where
  "ImportShare vssKey x share =
     (case map_of (vss_shares vssKey) x of
        None \<Rightarrow> Inr (vssKey\<lparr>vss_shares := AList.update x share (vss_shares vssKey)\<rparr>)
      | Some s \<Rightarrow> if s = share then Inr vssKey else Inl (Err ''share already exists''))"

definition GetShare :: "'p VssKey \<Rightarrow> nat \<Rightarrow> error + nat" where
  "GetShare vssKey x =
     (case map_of (vss_shares vssKey) x of
        None \<Rightarrow> Inl (Err ''share not found'')
      | Some s \<Rightarrow> Inr s)"

fun polynomial_Sum :: "'p CurveOps \<Rightarrow> 'p list list \<Rightarrow> error + 'p list" where
  "polynomial_Sum G [] = Inl (Err ''sum of no polynomials'')"
| "polynomial_Sum G [p] = Inr p"
| "polynomial_Sum G (p # ps) =
     (case polynomial_Sum G ps of
        Inl err \<Rightarrow> Inl err
      | Inr s \<Rightarrow>
          if length s \<noteq> length p then Inl (Err ''polynomials of different degree'')
          else Inr (map2 (PointAdd G) p s))"

text \<open>\<^verbatim>\<open>type message4 struct\<close> and \<^verbatim>\<open>type broadcast4 struct\<close>.\<close>

record ('ct, 'zk) cmp_message4 =
  Share :: 'ct
  Fac :: 'zk

record 'zk cmp_broadcast4 =
  Mod :: 'zk
  Prm :: 'zk

text \<open>
  \<^verbatim>\<open>type round4 struct\<close> with the fields of the rounds it embeds that round 4
  reads: the helper with the transcript hash, \<^verbatim>\<open>KeyID\<close>,
  \<^verbatim>\<open>PreviousSecretECDSA\<close> and \<^verbatim>\<open>PreviousPublicSharesECDSA\<close> (nil unless the key
  is refreshed) and the nonce \<^verbatim>\<open>SchnorrRand\<close>.
\<close>

record ('p, 'h) cmp_round4 = Helper +
  Hash :: 'h
  KeyID :: string
  PreviousSecretECDSA :: "nat option"
  PreviousPublicSharesECDSA :: "(party_id, 'p) gomap option"
  SchnorrRand :: nat
  mpc_ks :: "string \<rightharpoonup> MPCKey"
  elgamal_km :: "bytes manager"
  paillier_km :: "bytes manager"
  pedersen_km :: "bytes manager"
  vss_km :: "'p VssKey manager"
  rid_km :: "bytes manager"
  chainKey_km :: "bytes manager"
  MessageBroadcasted :: "(party_id, bool) gomap"
  MessagesForwarded :: "(party_id, bool) gomap"

text \<open>\<^verbatim>\<open>config.Public\<close> and \<^verbatim>\<open>config.Config\<close> as \<^verbatim>\<open>Finalize\<close> fills them.\<close>

record 'p Public =
  pub_ECDSA :: 'p
  pub_ElGamal :: bytes
  pub_Paillier :: bytes
  pub_Pedersen :: bytes

record 'p Config =
  cfg_Group :: curve
  cfg_ID :: party_id
  cfg_Threshold :: nat
  cfg_ECDSA :: nat
  cfg_RID :: "bytes option"
  cfg_ChainKey :: "bytes option"
  cfg_Public :: "(party_id, 'p Public) gomap"

text \<open>The successor \<^verbatim>\<open>round5\<close> as \<^verbatim>\<open>Finalize\<close> builds it.\<close>

record ('p, 'h) cmp_round5 =
  round4 :: "('p, 'h) cmp_round4"
  UpdatedConfig :: "'p Config"
  round5_MessageBroadcasted :: "(party_id, bool) gomap"

text \<open>
  The operations of other packages that round 4 calls, as the fields of a record:
  \<^verbatim>\<open>Helper.HashForID\<close>; the verifiers of the proofs, on the key that verifies and
  in the order of their arguments; \<^verbatim>\<open>ValidateCiphertexts\<close> and \<^verbatim>\<open>Decode\<close> of the
  local Paillier key; \<^verbatim>\<open>party.ID.Scalar\<close>; the Schnorr prover on the nonce, the
  hash, the public point and the secret; \<^verbatim>\<open>WriteAny(UpdatedConfig, SelfID)\<close> on a
  clone of the hash and \<^verbatim>\<open>UpdateHashState(UpdatedConfig)\<close>.
\<close>

record ('p, 'h, 'ct, 'zk) cmp_env4 =
  HashForID4 :: "'h \<Rightarrow> party_id \<Rightarrow> 'h"
  VerifyZKMod :: "bytes \<Rightarrow> 'zk \<Rightarrow> 'h \<Rightarrow> bool"
  VerifyProof :: "bytes \<Rightarrow> 'h \<Rightarrow> 'zk \<Rightarrow> bool"
  ValidateCiphertexts :: "bytes \<Rightarrow> 'ct \<Rightarrow> bool"
  VerifyZKFAC :: "bytes \<Rightarrow> 'zk \<Rightarrow> bytes \<Rightarrow> bytes \<Rightarrow> 'h \<Rightarrow> bool"
  Decode :: "bytes \<Rightarrow> 'ct \<Rightarrow> error + int"
  Scalar4 :: "party_id \<Rightarrow> nat"
  Prove :: "nat \<Rightarrow> 'h \<Rightarrow> 'p \<Rightarrow> nat \<Rightarrow> 'zk"
  WriteAny_config :: "'h \<Rightarrow> 'p Config \<Rightarrow> party_id \<Rightarrow> 'h"
  UpdateHashState_config :: "'h \<Rightarrow> 'p Config \<Rightarrow> 'h"

text \<open>\<^verbatim>\<open>func (r *round4) StoreBroadcastMessage(msg round.Message) error\<close>.\<close>

definition cmp_round4_StoreBroadcastMessage ::
  "('p, 'h, 'ct, 'zk) cmp_env4 \<Rightarrow> ('p, 'h) cmp_round4 \<Rightarrow> 'zk cmp_broadcast4 message
     \<Rightarrow> ('p, 'h) cmp_round4 \<times> error option" where
  "cmp_round4_StoreBroadcastMessage env r msg =
     (case Content msg of
        OtherContent \<Rightarrow> (r, Some ErrInvalidContent)
      | NilBody \<Rightarrow> (r, Some ErrInvalidContent)
      | Body body \<Rightarrow>
          (case GetKey (pedersen_km r) (KeyID r, From msg) of
             Inl err \<Rightarrow> (r, Some err)
           | Inr ped \<Rightarrow>
          (case GetKey (paillier_km r) (KeyID r, From msg) of
             Inl err \<Rightarrow> (r, Some err)
           | Inr paillier \<Rightarrow>
               (if \<not> VerifyZKMod env paillier (Mod body) (HashForID4 env (Hash r) (From msg))
                then (r, Some (Err ''failed to validate mod proof''))
                else if \<not> VerifyProof env ped (HashForID4 env (Hash r) (From msg)) (Prm body)
                then (r, Some (Err ''failed to validate prm proof''))
                else (r\<lparr>MessageBroadcasted := AList.update (From msg) True (MessageBroadcasted r)\<rparr>,
                      None)))))"

text \<open>\<^verbatim>\<open>func (r *round4) VerifyMessage(msg round.Message) error\<close>.\<close>

definition cmp_round4_VerifyMessage ::
  "('p, 'h, 'ct, 'zk) cmp_env4 \<Rightarrow> ('p, 'h) cmp_round4 \<Rightarrow> ('ct, 'zk) cmp_message4 message
     \<Rightarrow> error option" where
  "cmp_round4_VerifyMessage env r msg =
     (case Content msg of
        OtherContent \<Rightarrow> Some ErrInvalidContent
      | NilBody \<Rightarrow> Some ErrInvalidContent
      | Body body \<Rightarrow>
          (case GetKey (paillier_km r) (KeyID r, SelfID r) of
             Inl err \<Rightarrow> Some err
           | Inr paillierKey \<Rightarrow>
               (if \<not> ValidateCiphertexts env paillierKey (Share body)
                then Some (Err ''invalid ciphertext'')
                else
                  (case GetKey (pedersen_km r) (KeyID r, SelfID r) of
                     Inl err \<Rightarrow> Some err
                   | Inr ped \<Rightarrow>
                  (case GetKey (paillier_km r) (KeyID r, From msg) of
                     Inl err \<Rightarrow> Some err
                   | Inr paillierj \<Rightarrow>
                       (if \<not> VerifyZKFAC env paillierKey (Fac body) paillierj ped
                              (HashForID4 env (Hash r) (From msg))
                        then Some (Err ''failed to validate fac proof'')
                        else None))))))"

text \<open>
  \<^verbatim>\<open>func (r *round4) StoreMessage(msg round.Message) error\<close>. The type assertion
  on the content is unchecked: a content of another type panics at once, a nil body
  panics where \<^verbatim>\<open>body.Share\<close> is read. \<open>DecryptedShare.Mod(Order)\<close> is the
  residue in \<open>{0..<Order}\<close>, \<^verbatim>\<open>MakeInt\<close> lifts a scalar to its representative, and
  \<^verbatim>\<open>PublicShare.Equal\<close> is the equality of points.
\<close>

definition cmp_round4_StoreMessage ::
  "('p, 'h, 'ct, 'zk) cmp_env4 \<Rightarrow> 'p CurveOps \<Rightarrow> ('p, 'h) cmp_round4
     \<Rightarrow> ('ct, 'zk) cmp_message4 message \<Rightarrow> ('p, 'h) cmp_round4 \<times> error option" where
  "cmp_round4_StoreMessage env G r msg =
     (case Content msg of
        OtherContent \<Rightarrow> (r, Some (Panic ''interface conversion''))
      | _ \<Rightarrow>
     (case GetKey (paillier_km r) (KeyID r, SelfID r) of
        Inl err \<Rightarrow> (r, Some err)
      | Inr paillierKey \<Rightarrow>
     (case Content msg of
        OtherContent \<Rightarrow> (r, Some (Panic ''interface conversion''))
      | NilBody \<Rightarrow> (r, Some (Panic ''invalid memory address or nil pointer dereference''))
      | Body body \<Rightarrow>
     (case Decode env paillierKey (Share body) of
        Inl err \<Rightarrow> (r, Some err)
      | Inr DecryptedShare \<Rightarrow>
     (let share = nat (DecryptedShare mod int (Order G)) in
      if DecryptedShare \<noteq> int share
      then (r, Some (Err ''decrypted share is not in correct range''))
      else
     (case GetKey (vss_km r) (KeyID r, From msg) of
        Inl err \<Rightarrow> (r, Some err)
      | Inr vssKey \<Rightarrow>
     (case EvaluateByExponents G vssKey (Scalar4 env (SelfID r)) of
        Inl err \<Rightarrow> (r, Some err)
      | Inr ExpectedPublicShare \<Rightarrow>
     (let PublicShare = ActOnBase G share in
      if PublicShare \<noteq> ExpectedPublicShare
      then (r, Some (Err ''failed to validate VSS share''))
      else
     (case ImportShare vssKey (Scalar4 env (SelfID r)) share of
        Inl err \<Rightarrow> (r, Some err)
      | Inr vssKey' \<Rightarrow>
          (r\<lparr>vss_km := (vss_km r)((KeyID r, From msg) \<mapsto> vssKey'),
             MessagesForwarded := AList.update (From msg) True (MessagesForwarded r)\<rparr>,
           None))))))))))"

text \<open>
  The first loop of \<^verbatim>\<open>Finalize\<close>: add the share received from every party to the
  secret, with the accumulator \<^verbatim>\<open>UpdatedSecretECDSA\<close> as last argument.
\<close>

fun cmp_round4_sum_shares ::
  "('p, 'h, 'ct, 'zk) cmp_env4 \<Rightarrow> 'p CurveOps \<Rightarrow> ('p, 'h) cmp_round4 \<Rightarrow> party_id list \<Rightarrow> nat
     \<Rightarrow> error + nat" where
  "cmp_round4_sum_shares env G r [] secret = Inr secret"
| "cmp_round4_sum_shares env G r (j # js) secret =
     (case GetKey (vss_km r) (KeyID r, j) of
        Inl err \<Rightarrow> Inl err
      | Inr vssKeyj \<Rightarrow>
          (case GetShare vssKeyj (Scalar4 env (SelfID r)) of
             Inl err \<Rightarrow> Inl err
           | Inr shareReceivedj \<Rightarrow>
               cmp_round4_sum_shares env G r js (ScalarAdd G secret shareReceivedj)))"

text \<open>The second loop: collect the exponent polynomial of every party.\<close>

fun cmp_round4_polynomials :: "('p, 'h) cmp_round4 \<Rightarrow> party_id list \<Rightarrow> error + 'p list list" where
  "cmp_round4_polynomials r [] = Inr []"
| "cmp_round4_polynomials r (j # js) =
     (case GetKey (vss_km r) (KeyID r, j) of
        Inl err \<Rightarrow> Inl err
      | Inr vssj \<Rightarrow>
          (case ExponentsRaw vssj of
             Inl err \<Rightarrow> Inl err
           | Inr expj \<Rightarrow>
               (case cmp_round4_polynomials r js of
                  Inl err \<Rightarrow> Inl err
                | Inr ps \<Rightarrow> Inr (expj # ps))))"

text \<open>
  The third loop: the public data of every party, with the map \<^verbatim>\<open>PublicData\<close> as
  last argument. Adding a previous public share that the map of a refresh does not hold
  is a call on the nil point and panics.
\<close>

fun cmp_round4_public_data ::
  "('p, 'h, 'ct, 'zk) cmp_env4 \<Rightarrow> 'p CurveOps \<Rightarrow> ('p, 'h) cmp_round4 \<Rightarrow> 'p list
     \<Rightarrow> party_id list \<Rightarrow> (party_id, 'p Public) gomap \<Rightarrow> error + (party_id, 'p Public) gomap" where
  "cmp_round4_public_data env G r poly [] PublicData = Inr PublicData"
| "cmp_round4_public_data env G r poly (j # js) PublicData =
     (case (case PreviousPublicSharesECDSA r of
              None \<Rightarrow> Inr (exponent_Evaluate G poly (Scalar4 env j))
            | Some prev \<Rightarrow>
                (case map_of prev j of
                   None \<Rightarrow> Inl (Panic ''invalid memory address or nil pointer dereference'')
                 | Some p \<Rightarrow> Inr (PointAdd G (exponent_Evaluate G poly (Scalar4 env j)) p))) of
        Inl err \<Rightarrow> Inl err
      | Inr PublicECDSAShare \<Rightarrow>
     (case GetKey (elgamal_km r) (KeyID r, j) of
        Inl err \<Rightarrow> Inl err
      | Inr elgamalj \<Rightarrow>
     (case GetKey (paillier_km r) (KeyID r, j) of
        Inl err \<Rightarrow> Inl err
      | Inr paillierj \<Rightarrow>
     (case GetKey (pedersen_km r) (KeyID r, j) of
        Inl err \<Rightarrow> Inl err
      | Inr pedersenj \<Rightarrow>
          cmp_round4_public_data env G r poly js
            (AList.update j
               \<lparr>pub_ECDSA = PublicECDSAShare, pub_ElGamal = elgamalj,
                pub_Paillier = paillierj, pub_Pedersen = pedersenj\<rparr>
               PublicData)))))"

text \<open>
  \<^verbatim>\<open>func (r *round4) Finalize(out chan<- *round.Message) (round.Session, error)\<close>.
  The result is the returned session, the returned error and the output channel as the
  call leaves it; \<^verbatim>\<open>Finalize\<close> changes no store of the round, only the transcript
  hash of the round it hands on. A panic ends the call with no session.
\<close>

definition cmp_round4_Finalize ::
  "('p, 'h, 'ct, 'zk) cmp_env4 \<Rightarrow> 'p CurveOps \<Rightarrow> ('p, 'h) cmp_round4 \<Rightarrow> 'zk out_chan
     \<Rightarrow> (('p, 'h) cmp_round4, ('p, 'h) cmp_round5, unit) session \<times> error option \<times> 'zk out_chan" where
  "cmp_round4_Finalize env G r out =
     (if len (MessageBroadcasted r) \<noteq> N r - 1 \<or> len (MessagesForwarded r) \<noteq> N r - 1
      then (NoSession, Some ErrNotEnoughMessages, out)
      else
     (let secret0 = (case PreviousSecretECDSA r of None \<Rightarrow> NewScalar G | Some prev \<Rightarrow> prev) in
      case cmp_round4_sum_shares env G r (PartyIDs r) secret0 of
        Inl err \<Rightarrow> (NoSession, Some err, out)
      | Inr UpdatedSecretECDSA \<Rightarrow>
     (case cmp_round4_polynomials r (PartyIDs r) of
        Inl err \<Rightarrow> (ThisRound r, Some err, out)
      | Inr ShamirPublicPolynomials \<Rightarrow>
     (case polynomial_Sum G ShamirPublicPolynomials of
        Inl err \<Rightarrow> (ThisRound r, Some err, out)
      | Inr ShamirPublicPolynomial \<Rightarrow>
     (case cmp_round4_public_data env G r ShamirPublicPolynomial (PartyIDs r) [] of
        Inl (Panic p) \<Rightarrow> (NoSession, Some (Panic p), out)
      | Inl err \<Rightarrow> (ThisRound r, Some err, out)
      | Inr PublicData \<Rightarrow>
     (case mpc_ks_Get (mpc_ks r) (KeyID r) of
        Inl err \<Rightarrow> (ThisRound r, Some err, out)
      | Inr mpckey \<Rightarrow>
     (let UpdatedConfig =
            \<lparr>cfg_Group = Group r, cfg_ID = SelfID r, cfg_Threshold = Threshold r,
             cfg_ECDSA = UpdatedSecretECDSA, cfg_RID = mpc_RID mpckey,
             cfg_ChainKey = mpc_ChainKey mpckey, cfg_Public = PublicData\<rparr>;
          h = WriteAny_config env (Hash r) UpdatedConfig (SelfID r)
      in case map_of PublicData (SelfID r) of
           None \<Rightarrow> (NoSession, Some (Panic ''invalid memory address or nil pointer dereference''), out)
         | Some selfPublic \<Rightarrow>
     (let proof = Prove env (SchnorrRand r) h (pub_ECDSA selfPublic) UpdatedSecretECDSA in
      case BroadcastMessage r out proof of
        Inl err \<Rightarrow> (ThisRound r, Some err, out)
      | Inr out' \<Rightarrow>
     (let r' = r\<lparr>Hash := UpdateHashState_config env (Hash r) UpdatedConfig\<rparr> in
      (NextRound \<lparr>round4 = r', UpdatedConfig = UpdatedConfig, round5_MessageBroadcasted = []\<rparr>,
       None, out'))))))))))"

text \<open>\<^verbatim>\<open>func (r *round4) CanFinalize() bool\<close>.\<close>

definition cmp_round4_CanFinalize :: "('p, 'h) cmp_round4 \<Rightarrow> bool" where
  "cmp_round4_CanFinalize r =
     (len (MessageBroadcasted r) = N r - 1 \<and> len (MessagesForwarded r) = N r - 1)"

text \<open>
  For evaluation on the one-byte curve: the proofs are numbers checked against a
  constant, the stand-in for the Paillier decryption returns the ciphertext as the
  plaintext, and the transcript hash is the list of the byte strings written to it.
\<close>

definition Z7_env4 :: "(nat, bytes list, int, nat) cmp_env4" where
  "Z7_env4 =
     \<lparr>HashForID4 = (\<lambda>h j. h @ [bytes_of_string j]),
      VerifyZKMod = (\<lambda>k z h. z = 0),
      VerifyProof = (\<lambda>k h z. z = 1),
      ValidateCiphertexts = (\<lambda>k c. True),
      VerifyZKFAC = (\<lambda>k z n aux h. z = 2),
      Decode = (\<lambda>k c. Inr c),
      Scalar4 = Z7_party_scalar,
      Prove = (\<lambda>a h X x. (a + x) mod 7),
      WriteAny_config = (\<lambda>h c j. h @ [bytes_of_string j]),
      UpdateHashState_config = (\<lambda>h c. h @ [bytes_of_string (cfg_ID c)])\<rparr>"

text \<open>
  Round 4 of party \<open>a\<close> (scalar 1) in a two-party key generation with nothing
  received. The peer \<open>b\<close> has the exponent polynomial \<open>[3, 5]\<close>, so that the share it
  owes to \<open>a\<close> is \<open>3 + 5 \<cdot> 1 = 1\<close> modulo 7. Four direct messages of \<open>b\<close>: the share
  \<open>1\<close>, the integers \<open>8\<close> and \<open>-6\<close>, which are congruent to it and out of range, and
  the share \<open>2\<close>, which is in range and fails the check against the polynomial.
\<close>

definition cmp_round4_start :: "(nat, bytes list) cmp_round4" where
  "cmp_round4_start =
     \<lparr>ID = ''s1'', SelfID = ''a'', PartyIDs = [''a'', ''b''], Threshold = 1, Group = Secp256k1,
      Hash = [],
      KeyID = ''s1'',
      PreviousSecretECDSA = None,
      PreviousPublicSharesECDSA = None,
      SchnorrRand = 2,
      mpc_ks = [''s1'' \<mapsto> \<lparr>mpc_ID = ''s1'', mpc_RID = Some (replicate 32 3),
                              mpc_ChainKey = Some (replicate 32 12)\<rparr>],
      elgamal_km = [(''s1'', ''a'') \<mapsto> [3], (''s1'', ''b'') \<mapsto> [6]],
      paillier_km = [(''s1'', ''a'') \<mapsto> [1], (''s1'', ''b'') \<mapsto> [7]],
      pedersen_km = [(''s1'', ''a'') \<mapsto> [2], (''s1'', ''b'') \<mapsto> [8]],
      vss_km = [(''s1'', ''a'') \<mapsto> \<lparr>vss_exponents = [4, 6], vss_shares = [(1, 3)]\<rparr>,
                (''s1'', ''b'') \<mapsto> \<lparr>vss_exponents = [3, 5], vss_shares = []\<rparr>],
      rid_km = Map.empty,
      chainKey_km = Map.empty,
      MessageBroadcasted = [],
      MessagesForwarded = []\<rparr>"

definition cmp_msg4 :: "int \<Rightarrow> (int, nat) cmp_message4 message" where
  "cmp_msg4 c = \<lparr>From = ''b'', Content = Body \<lparr>Share = c, Fac = 2\<rparr>\<rparr>"

definition cmp_bcast4 :: "nat cmp_broadcast4 message" where
  "cmp_bcast4 = \<lparr>From = ''b'', Content = Body \<lparr>Mod = 0, Prm = 1\<rparr>\<rparr>"

chapter \<open>Verified properties\<close>

section \<open>Properties of the Paillier key manager\<close>

text \<open>
  C10. \<^verbatim>\<open>GetKey\<close> returns a nil error for every SKI, whatever the keystore and
  the decoder do; when the keystore lookup fails or the stored bytes do not decode, the
  key it returns is the zero-valued \<^verbatim>\<open>PaillierKey\<close>.
\<close>

theorem GetKey_error_always_nil:
  "snd (PaillierKeyManager_GetKey fromBytes mgr ski) = None \<and>
   ((isl (keystore_Get mgr (hex_EncodeToString ski)) \<or>
     (\<exists>decoded. keystore_Get mgr (hex_EncodeToString ski) = Inr decoded \<and> isl (fromBytes decoded)))
    \<longrightarrow> PaillierKeyManager_GetKey fromBytes mgr ski = (PaillierKey_zero, None))"
  by (auto simp: PaillierKeyManager_GetKey_def Let_def split: sum.splits)

theorem GetKey_error_always_nil_witness:
  "PaillierKeyManager_GetKey
      (\<lambda>bs. Inl ErrInvalidKey :: error + (nat, nat) PaillierKey)
      \<lparr>keystore_Get = (\<lambda>k. if k = ''0a'' then Inr [1, 2] else Inl (Err ''key not found'')),
       keystore_Import = (\<lambda>k v. None)\<rparr>
      [10]
    = (PaillierKey_zero, None)"
  using GetKey_error_always_nil
    [of "\<lambda>bs. Inl ErrInvalidKey :: error + (nat, nat) PaillierKey"
        "\<lparr>keystore_Get = (\<lambda>k. if k = ''0a'' then Inr [1, 2] else Inl (Err ''key not found'')),
          keystore_Import = (\<lambda>k v. None)\<rparr>"
        "[10]"]
  by (simp add: hex_EncodeToString_def hexdigit_def)

section \<open>Properties of FROST signing, round 2\<close>

lemma ImportKey_stores: "ImportKey km k opts = Inr km' \<Longrightarrow> km' opts = Some k"
  by (auto simp: ImportKey_def split: option.splits if_splits)

text \<open>
  C6. When the \<open>D\<close> or the \<open>E\<close> of a received nonce-commitment broadcast is the
  identity point, \<^verbatim>\<open>StoreBroadcastMessage\<close> returns an error and leaves both
  stores as they were; whenever it accepts a broadcast (nil error), the two stores hold
  the sender's \<open>D\<close> and \<open>E\<close>, and neither stored point is the identity.
\<close>

theorem sign_round2_nonce_commitments_non_identity:
  assumes "Content msg = Body body"
  shows "(IsIdentity G (nonce_D body) \<or> IsIdentity G (nonce_E body) \<longrightarrow>
           (\<exists>e. sign_round2_StoreBroadcastMessage G r msg = (r, Some e))) \<and>
         (\<forall>r'. sign_round2_StoreBroadcastMessage G r msg = (r', None) \<longrightarrow>
           (\<exists>dk ek. sign_d r' (ID r, From msg) = Some dk \<and>
              sign_e r' (ID r, From msg) = Some ek \<and>
              PublicKeyRaw dk = nonce_D body \<and> PublicKeyRaw ek = nonce_E body \<and>
              \<not> IsIdentity G (PublicKeyRaw dk) \<and> \<not> IsIdentity G (PublicKeyRaw ek)))"
  using assms
  by (auto simp: sign_round2_StoreBroadcastMessage_def Let_def NewECDSAKey_def PublicKeyRaw_def
      split: sum.splits if_splits dest!: ImportKey_stores)

theorem sign_round2_nonce_commitments_non_identity_witness:
  "sign_round2_StoreBroadcastMessage Z7 sign_round2_start sign_msg_identity =
     (sign_round2_start, Some (Err ''nonce commitment is the identity point'')) \<and>
   snd (sign_round2_StoreBroadcastMessage Z7 sign_round2_start sign_msg_good) = None \<and>
   (\<exists>dk ek.
      sign_d (fst (sign_round2_StoreBroadcastMessage Z7 sign_round2_start sign_msg_good))
        (''s1'', ''b'') = Some dk \<and>
      sign_e (fst (sign_round2_StoreBroadcastMessage Z7 sign_round2_start sign_msg_good))
        (''s1'', ''b'') = Some ek \<and>
      PublicKeyRaw dk = 2 \<and> PublicKeyRaw ek = 3 \<and>
      \<not> IsIdentity Z7 (PublicKeyRaw dk) \<and> \<not> IsIdentity Z7 (PublicKeyRaw ek))"
  using sign_round2_nonce_commitments_non_identity
      [of sign_msg_identity "\<lparr>nonce_D = 0, nonce_E = 3\<rparr>" Z7 sign_round2_start]
    sign_round2_nonce_commitments_non_identity
      [of sign_msg_good "\<lparr>nonce_D = 2, nonce_E = 3\<rparr>" Z7 sign_round2_start]
  by (simp add: sign_round2_StoreBroadcastMessage_def sign_msg_identity_def sign_msg_good_def
      sign_round2_start_def Z7_def ImportKey_def NewECDSAKey_def PublicKeyRaw_def Let_def)

text \<open>
  C4. \<^verbatim>\<open>CanFinalize\<close> of the signing round answers true in the two-party session
  in which the broadcast of the other party \<open>b\<close> has not been delivered, where
  \<^verbatim>\<open>HasAll\<close> over \<^verbatim>\<open>OtherPartyIDs\<close> for round 2 is false.
\<close>

theorem sign_round2_CanFinalize_before_delivery:
  "sign_round2_CanFinalize sign_round2_start = True \<and>
   OtherPartyIDs sign_round2_start = [''b''] \<and>
   HasAll (sign_round2.bcstmgr sign_round2_start) (ID sign_round2_start) 2
     (OtherPartyIDs sign_round2_start) = Inr False"
  by (simp add: sign_round2_CanFinalize_def sign_round2_start_def HasAll_def OtherPartyIDs_def)

section \<open>Properties of the ECDSA key encoding\<close>

lemma unat_of_char: "unat (of_char c :: byte) = of_char c"
proof -
  have "(of_char c :: byte) = of_nat (of_char c)"
    by (simp only: of_nat_of_char)
  then have "unat (of_char c :: byte) = (of_char c :: nat) mod 256"
    by (simp only: unat_of_nat) simp
  then show ?thesis by (simp only: of_char_mod_256)
qed

lemma string_of_bytes_of_string: "string_of_bytes (bytes_of_string s) = s"
  by (induction s) (simp_all add: string_of_bytes_def bytes_of_string_def unat_of_char)

lemma unat_uint8: "n < 256 \<Longrightarrow> unat (uint8 n) = n"
  by (simp add: uint8_def unat_of_nat)

lemma fromBytes_layout:
  assumes "length gn < 256" and "length pk < 256" and "length sk < 256"
    and "string_of_bytes gn = ''secp256k1''"
    and "PointUnmarshalBinary G pk = Inr p" and "ScalarUnmarshalBinary G sk = Inr s"
  shows "ECDSAKey_fromBytes G (uint8 (length gn) # gn @ uint8 (length pk) # pk @ uint8 (length sk) # sk)
           = Inr (NewECDSAKey (Some s) p (Some Secp256k1))"
proof -
  let ?data = "uint8 (length gn) # gn @ uint8 (length pk) # pk @ uint8 (length sk) # sk"
  have gn: "subslice ?data 1 (1 + length gn) = gn"
    by (simp add: subslice_def)
  have pkl: "?data ! (1 + length gn) = uint8 (length pk)"
    by (simp add: nth_append)
  have pks: "subslice ?data (2 + length gn) (2 + length gn + length pk) = pk"
    by (simp add: subslice_def)
  have skl: "?data ! (2 + length gn + length pk) = uint8 (length sk)"
    by (simp add: nth_append nth_Cons')
  have "3 + length gn + length pk = length (uint8 (length gn) # gn @ uint8 (length pk) # pk @ [uint8 (length sk)])"
    by simp
  then have sks: "drop (3 + length gn + length pk) ?data = sk"
    by (simp only: drop_append append_Cons[symmetric] append_assoc[symmetric]) simp
  have l: "length ?data = 3 + length gn + length pk + length sk" by simp
  have z: "?data ! 0 = uint8 (length gn)" by simp
  show ?thesis
    unfolding ECDSAKey_fromBytes_def Let_def z unat_uint8[OF assms(1)] gn pkl unat_uint8[OF assms(2)] pks skl unat_uint8[OF assms(3)] sks l
    using assms by simp
qed

lemma ECDSAKey_private_roundtrip:
  assumes "priv key = Some s" and "group key = Some Secp256k1"
    and "PointMarshalBinary G (pub key) = Inr pk" and "ScalarMarshalBinary G s = Inr sk"
    and "length pk < 256" and "length sk < 256"
    and "PointUnmarshalBinary G pk = Inr (pub key)" and "ScalarUnmarshalBinary G sk = Inr s"
  shows "\<exists>data. ECDSAKey_Bytes G key = Inr data \<and> ECDSAKey_fromBytes G data = Inr key"
proof -
  let ?gn = "bytes_of_string ''secp256k1''"
  let ?data = "uint8 (length ?gn) # ?gn @ uint8 (length pk) # pk @ uint8 (length sk) # sk"
  have b: "ECDSAKey_Bytes G key = Inr ?data"
    using assms by (simp add: ECDSAKey_Bytes_def Let_def bytes_of_string_def)
  have "length ?gn < 256" by (simp add: bytes_of_string_def)
  then have "ECDSAKey_fromBytes G ?data = Inr (NewECDSAKey (Some s) (pub key) (Some Secp256k1))"
    using assms by (intro fromBytes_layout) (simp_all add: string_of_bytes_of_string)
  moreover have "NewECDSAKey (Some s) (pub key) (Some Secp256k1) = key"
    using assms by (simp add: NewECDSAKey_def)
  ultimately show ?thesis using b by simp
qed

lemma ECDSAKey_fromBytes_Private: "ECDSAKey_fromBytes G data = Inr k \<Longrightarrow> Private k"
  by (auto simp: ECDSAKey_fromBytes_def Let_def Private_def NewECDSAKey_def
      split: if_splits sum.splits option.splits)

text \<open>
  C8. The public-only key with public point 3 of the one-byte curve encodes to the
  twelve bytes of the group name and the public component, and \<^verbatim>\<open>fromBytes\<close>
  of these bytes does not succeed: it reads the length of a private component one
  index past the end of the data and panics. (\<open>ECDSAKey_private_roundtrip\<close> above is
  the round trip for private keys; by \<open>ECDSAKey_fromBytes_Private\<close> no data decode to
  a public-only key.)
\<close>

theorem ECDSAKey_public_only_decode_panics:
  "ECDSAKey_Bytes Z7 (NewECDSAKey None 3 (Some Secp256k1)) =
     Inr [9, 115, 101, 99, 112, 50, 53, 54, 107, 49, 1, 3] \<and>
   ECDSAKey_fromBytes Z7 [9, 115, 101, 99, 112, 50, 53, 54, 107, 49, 1, 3] =
     Inl (Panic ''index out of range'')"
  by code_simp

section \<open>Properties of CMP signing, round 5\<close>

lemma sum_SigmaShares_all:
  "\<forall>j\<in>set js. map_of shares j \<noteq> None \<Longrightarrow> acc mod Order G = acc \<Longrightarrow>
   sum_SigmaShares G shares js acc = Inr ((acc + (\<Sum>j\<leftarrow>js. the (map_of shares j))) mod Order G)"
proof (induction js arbitrary: acc)
  case Nil
  then show ?case by simp
next
  case (Cons j js)
  then obtain s where s: "map_of shares j = Some s" by auto
  have "sum_SigmaShares G shares js (ScalarAdd G acc s) =
          Inr ((ScalarAdd G acc s + (\<Sum>j\<leftarrow>js. the (map_of shares j))) mod Order G)"
    using Cons.prems by (intro Cons.IH) (simp_all add: ScalarAdd_def)
  then show ?case
    using s by (simp add: ScalarAdd_def mod_add_left_eq add.assoc)
qed

text \<open>
  C9. \<^verbatim>\<open>Finalize\<close> of CMP signing round 5 never returns a result round whose
  signature fails verification under the group public key and the message. Once all
  \<open>N - 1\<close> sigma-share broadcasts are stored and every party has its share in
  \<^verbatim>\<open>SigmaShares\<close>, it takes \<open>\<sigma>\<close> to be the sum of all parties' shares in the scalar
  field and returns the result round carrying \<open>(R, \<sigma>)\<close> if that signature verifies,
  and the abort round otherwise.
\<close>

theorem sign_round5_Finalize_verified_signature:
  "(\<forall>sg. fst (sign_round5_Finalize V G r) = ResultRound sg \<longrightarrow> V sg (PublicKey r) (Message r)) \<and>
   (sign_round5_CanFinalize r \<and> (\<forall>j\<in>set (PartyIDs r). map_of (SigmaShares r) j \<noteq> None) \<longrightarrow>
     sign_round5_Finalize V G r =
       (let sg = \<lparr>sig_R = BigR r,
                  sig_S = (\<Sum>j\<leftarrow>PartyIDs r. the (map_of (SigmaShares r) j)) mod Order G\<rparr>
        in if V sg (PublicKey r) (Message r) then (ResultRound sg, None)
           else (AbortRound (Err ''failed to validate signature''), None)))"
proof (intro conjI allI impI)
  fix sg assume "fst (sign_round5_Finalize V G r) = ResultRound sg"
  then show "V sg (PublicKey r) (Message r)"
    by (auto simp: sign_round5_Finalize_def Let_def split: if_splits sum.splits)
next
  assume a: "sign_round5_CanFinalize r \<and> (\<forall>j\<in>set (PartyIDs r). map_of (SigmaShares r) j \<noteq> None)"
  then have "sum_SigmaShares G (SigmaShares r) (PartyIDs r) (NewScalar G) =
      Inr ((\<Sum>j\<leftarrow>PartyIDs r. the (map_of (SigmaShares r) j)) mod Order G)"
    using sum_SigmaShares_all[of "PartyIDs r" "SigmaShares r" 0 G] by (simp add: NewScalar_def)
  with a show "sign_round5_Finalize V G r =
       (let sg = \<lparr>sig_R = BigR r,
                  sig_S = (\<Sum>j\<leftarrow>PartyIDs r. the (map_of (SigmaShares r) j)) mod Order G\<rparr>
        in if V sg (PublicKey r) (Message r) then (ResultRound sg, None)
           else (AbortRound (Err ''failed to validate signature''), None))"
    by (simp add: sign_round5_Finalize_def sign_round5_CanFinalize_def Let_def)
qed

theorem sign_round5_Finalize_verified_signature_witness:
  "sign_round5_CanFinalize sign_round5_ready \<and>
   sign_round5_Finalize Z7_Verify Z7 sign_round5_ready = (ResultRound \<lparr>sig_R = 3, sig_S = 2\<rparr>, None) \<and>
   Z7_Verify \<lparr>sig_R = 3, sig_S = 2\<rparr> 6 [0] \<and>
   sign_round5_Finalize Z7_Verify Z7 (sign_round5_ready\<lparr>PublicKey := 5\<rparr>) =
     (AbortRound (Err ''failed to validate signature''), None)"
  using sign_round5_Finalize_verified_signature[of Z7_Verify Z7 sign_round5_ready]
    sign_round5_Finalize_verified_signature[of Z7_Verify Z7 "sign_round5_ready\<lparr>PublicKey := 5\<rparr>"]
  by (simp add: sign_round5_CanFinalize_def sign_round5_ready_def len_def N_def Z7_Verify_def Z7_def Let_def)

section \<open>Properties of FROST key generation, round 2\<close>

lemma keygen_round2_rejects_identity:
  "Content msg = Body body \<Longrightarrow> IsIdentity G (SchnorrCommitment body) \<Longrightarrow>
   keygen_round2_StoreBroadcastMessage env G r msg =
     (r, Some (Err ''frost.Keygen.Round2: invalid schnorr commitment''))"
  by (simp add: keygen_round2_StoreBroadcastMessage_def)

lemma keygen_round2_draft_rejects_non_identity:
  "Content msg = Body body \<Longrightarrow> \<not> IsIdentity G (SchnorrCommitment body) \<Longrightarrow>
   keygen_round2_draft_StoreBroadcastMessage env G r msg =
     (r, Some (Err ''frost.Keygen.Round2: invalid schnorr commitment''))"
  by (simp add: keygen_round2_draft_StoreBroadcastMessage_def)

text \<open>
  C2. On the peer's broadcast with the non-identity Schnorr commitment \<open>2\<close> and a
  valid proof, the first \<^verbatim>\<open>StoreBroadcastMessage\<close> of round2.go accepts and the
  draft one returns the error ``invalid schnorr commitment''; on the broadcast with the
  identity as commitment, the first one returns that error and the draft one accepts.
  (For all inputs: \<open>keygen_round2_rejects_identity\<close> and
  \<open>keygen_round2_draft_rejects_non_identity\<close> above.)
\<close>

theorem keygen_round2_draft_inverted_check:
  "\<not> IsIdentity Z7 (2 :: nat) \<and>
   snd (keygen_round2_StoreBroadcastMessage Z7_keygen_env Z7 keygen_round2_start keygen_msg_good) = None \<and>
   snd (keygen_round2_draft_StoreBroadcastMessage Z7_keygen_env Z7 keygen_round2_start keygen_msg_good) =
     Some (Err ''frost.Keygen.Round2: invalid schnorr commitment'') \<and>
   IsIdentity Z7 (0 :: nat) \<and>
   snd (keygen_round2_StoreBroadcastMessage Z7_keygen_env Z7 keygen_round2_start keygen_msg_identity) =
     Some (Err ''frost.Keygen.Round2: invalid schnorr commitment'') \<and>
   snd (keygen_round2_draft_StoreBroadcastMessage Z7_keygen_env Z7 keygen_round2_start keygen_msg_identity) = None"
  by (simp add: keygen_round2_StoreBroadcastMessage_def keygen_round2_draft_StoreBroadcastMessage_def
      keygen_round2_import_and_verify_def keygen_msg_good_def keygen_msg_identity_def
      keygen_round2_start_def Z7_keygen_env_def Z7_def IsZero_def NewCommitment_def NewECDSAKey_def
      ImportKey_def mm_Import_def Let_def)

section \<open>Properties of CMP key generation, round 3\<close>

lemma map2_xor_commute:
  "map2 (XOR) (map2 (XOR) a x) y = map2 (XOR) (map2 (XOR) a y) (x :: bytes)"
proof (induction a arbitrary: x y)
  case Nil
  then show ?case by simp
next
  case (Cons b a)
  show ?case
  proof (cases x)
    case Nil
    then show ?thesis by simp
  next
    case x: (Cons x0 xs)
    show ?thesis
    proof (cases y)
      case Nil
      then show ?thesis by simp
    next
      case (Cons y0 ys)
      with x Cons.IH[of xs ys] show ?thesis
        by (simp add: xor.assoc xor.left_commute xor.commute)
    qed
  qed
qed

lemma xor_parties_success:
  "xor_parties km sid js acc = Inr v \<longleftrightarrow>
     (\<forall>j\<in>set js. \<exists>k. km (sid, j) = Some k \<and> length acc \<le> length k) \<and>
     v = fold (\<lambda>j a. map2 (XOR) a (the (km (sid, j)))) js acc"
proof (induction js arbitrary: acc)
  case Nil
  then show ?case by auto
next
  case (Cons j js)
  show ?case
  proof (cases "km (sid, j)")
    case None
    then show ?thesis by (simp add: GetKey_def)
  next
    case (Some k)
    show ?thesis
    proof (cases "length k < length acc")
      case True
      with Some show ?thesis by (simp add: GetKey_def RID_XOR_def)
    next
      case False
      then have len: "length (map2 (XOR) acc k) = length acc" by simp
      from Some False show ?thesis
        by (simp add: GetKey_def RID_XOR_def Cons.IH len)
    qed
  qed
qed

lemma fold_xor_perm:
  assumes "mset js' = mset js"
  shows "fold (\<lambda>j a. map2 (XOR) a (f j :: bytes)) js' acc = fold (\<lambda>j a. map2 (XOR) a (f j)) js acc"
proof -
  have "fold (\<lambda>j a. map2 (XOR) a (f j)) js' = fold (\<lambda>j a. map2 (XOR) a (f j)) js"
    by (rule fold_multiset_equiv) (auto simp: fun_eq_iff map2_xor_commute assms)
  then show ?thesis by simp
qed

lemma xor_parties_perm:
  assumes "mset js' = mset js"
  shows "xor_parties km sid js' acc = Inr v \<longleftrightarrow> xor_parties km sid js acc = Inr v"
proof -
  have "set js' = set js" using assms by (rule mset_eq_setD)
  then show ?thesis
    unfolding xor_parties_success
    using fold_xor_perm[OF assms, of "\<lambda>j. the (km (sid, j))" acc] by simp
qed

lemma cmp_round3_chainKey_rid_success:
  "cmp_round3_chainKey_rid r = Inr (chainKey, rid) \<longleftrightarrow>
     (case PreviousChainKey r of
        Some c \<Rightarrow> c = chainKey
      | None \<Rightarrow> xor_parties (cmp_round3.chainKey_km r) (ID r) (PartyIDs r) EmptyRID = Inr chainKey) \<and>
     xor_parties (cmp_round3.rid_km r) (ID r) (PartyIDs r) EmptyRID = Inr rid"
  by (auto simp: cmp_round3_chainKey_rid_def split: option.splits sum.splits)

lemma cmp_round3_Finalize_stores_chainKey_rid:
  assumes "cmp_round3_Finalize env r out = (s, None, out', r')"
  shows "\<exists>chainKey rid mpckey.
           cmp_round3_chainKey_rid r = Inr (chainKey, rid) \<and>
           mpc_ks_Get (cmp_round3.mpc_ks r) (ID r) = Inr mpckey \<and>
           cmp_round3.mpc_ks r' (mpc_ID mpckey) =
             Some (mpckey\<lparr>mpc_ChainKey := Some chainKey, mpc_RID := Some rid\<rparr>)"
proof -
  from assms obtain mpckey chainKey rid ks' where
    g: "mpc_ks_Get (cmp_round3.mpc_ks r) (ID r) = Inr mpckey" and
    c: "cmp_round3_chainKey_rid r = Inr (chainKey, rid)" and
    u: "mpc_ks_Update (cmp_round3.mpc_ks r) (mpckey\<lparr>mpc_ChainKey := Some chainKey, mpc_RID := Some rid\<rparr>) = Inr ks'" and
    r': "cmp_round3.mpc_ks r' = ks'"
    by (auto simp: cmp_round3_Finalize_def Let_def split: if_splits sum.splits prod.splits)
  from u have "ks' (mpc_ID mpckey) = Some (mpckey\<lparr>mpc_ChainKey := Some chainKey, mpc_RID := Some rid\<rparr>)"
    by (auto simp: mpc_ks_Update_def split: option.splits)
  with g c r' show ?thesis by auto
qed

lemma cmp_round3_ready_chainKey_rid:
  "PartyIDs cmp_round3_ready = [''a'', ''b''] \<and>
   cmp_round3_chainKey_rid cmp_round3_ready = Inr (replicate 32 12, replicate 32 3) \<and>
   cmp_round3_chainKey_rid (cmp_round3_ready\<lparr>PartyIDs := [''b'', ''a'']\<rparr>) = Inr (replicate 32 12, replicate 32 3)"
  by code_simp

text \<open>
  C7. The pair of \<^verbatim>\<open>ChainKey\<close> and \<^verbatim>\<open>RID\<close> that \<^verbatim>\<open>Finalize\<close> of round 3
  folds with \<^verbatim>\<open>XOR\<close> over \<^verbatim>\<open>PartyIDs\<close> does not depend on the order of
  iteration: for every permutation of the party list the computation yields a pair
  exactly when it does for the original order, and then the same pair. (By
  \<open>cmp_round3_Finalize_stores_chainKey_rid\<close> this pair is what a \<^verbatim>\<open>Finalize\<close>
  that returns no error has written to the session's key.)
\<close>

theorem cmp_round3_rid_chainKey_order_independent:
  assumes "mset ps = mset (PartyIDs r)"
  shows "cmp_round3_chainKey_rid (r\<lparr>PartyIDs := ps\<rparr>) = Inr (chainKey, rid) \<longleftrightarrow>
         cmp_round3_chainKey_rid r = Inr (chainKey, rid)"
  unfolding cmp_round3_chainKey_rid_success
  by (simp add: xor_parties_perm[OF assms] split: option.splits)


theorem cmp_round3_rid_chainKey_order_independent_witness:
  "mset [''b'', ''a''] = mset (PartyIDs cmp_round3_ready) \<and>
   cmp_round3_chainKey_rid (cmp_round3_ready\<lparr>PartyIDs := [''b'', ''a'']\<rparr>) =
     Inr (replicate 32 12, replicate 32 3) \<and>
   cmp_round3_chainKey_rid cmp_round3_ready = Inr (replicate 32 12, replicate 32 3)"
proof -
  have m: "mset [''b'', ''a''] = mset (PartyIDs cmp_round3_ready)"
    using cmp_round3_ready_chainKey_rid by simp
  show ?thesis
    using cmp_round3_rid_chainKey_order_independent
        [OF m, of "replicate 32 12" "replicate 32 3"] cmp_round3_ready_chainKey_rid m
    by simp
qed

lemma cmp_round3_StoreBroadcastMessage_ignores_Threshold:
  "cmp_round3_StoreBroadcastMessage env (r\<lparr>Threshold := t\<rparr>) msg =
     (case cmp_round3_StoreBroadcastMessage env r msg of (r', err) \<Rightarrow> (r'\<lparr>Threshold := t\<rparr>, err))"
  by (simp add: cmp_round3_StoreBroadcastMessage_def cmp_round3_imports_def Let_def
      split: content.splits option.splits sum.splits prod.splits)

text \<open>
  C3. In the session with threshold 1, \<^verbatim>\<open>StoreBroadcastMessage\<close> of round 3
  returns no error for the peer's broadcast whose VSS polynomial has degree 2: it marks
  the broadcast as received and stores the polynomial. (By
  \<open>cmp_round3_StoreBroadcastMessage_ignores_Threshold\<close> the threshold has no
  influence on what the function returns.)
\<close>

theorem cmp_round3_accepts_wrong_degree:
  "Threshold cmp_round3_start = 1 \<and>
   VSS_decode Z7_env3 [3, 5, 6] = Inr [3, 5, 6] \<and>
   snd (cmp_round3_StoreBroadcastMessage Z7_env3 cmp_round3_start cmp_msg3_degree2) = None \<and>
   cmp_round3.MessageBroadcasted
     (fst (cmp_round3_StoreBroadcastMessage Z7_env3 cmp_round3_start cmp_msg3_degree2)) =
     [(''b'', True)] \<and>
   ecdsa_km (fst (cmp_round3_StoreBroadcastMessage Z7_env3 cmp_round3_start cmp_msg3_degree2))
     (''s1'', ''b'') =
     Some \<lparr>entry_key = [5], entry_vss = Some [3, 5, 6], entry_schnorr = Some 2\<rparr>"
  by code_simp

section \<open>Properties of CMP key generation, round 4\<close>

lemma share_in_range:
  "0 < q \<Longrightarrow> (d = int (nat (d mod int q))) = (0 \<le> d \<and> d < int q)"
proof -
  assume q: "0 < q"
  then have "0 \<le> d mod int q" by simp
  then have "int (nat (d mod int q)) = d mod int q" by simp
  moreover have "(d = d mod int q) = (0 \<le> d \<and> d < int q)"
  proof
    assume e: "d = d mod int q"
    have "0 \<le> d mod int q" and "d mod int q < int q" using q by simp_all
    with e show "0 \<le> d \<and> d < int q" by simp
  next
    assume "0 \<le> d \<and> d < int q"
    then show "d = d mod int q" by simp
  qed
  ultimately show ?thesis by simp
qed

lemma ImportShare_stores: "ImportShare v x s = Inr v' \<Longrightarrow> GetShare v' x = Inr s"
  by (auto simp: ImportShare_def GetShare_def AList.update_conv' split: option.splits if_splits)

lemma cmp_round4_start_eval:
  "snd (cmp_round4_StoreMessage Z7_env4 Z7 cmp_round4_start (cmp_msg4 1)) = None"
  "GetKey (cmp_round4.paillier_km cmp_round4_start) (KeyID cmp_round4_start, SelfID cmp_round4_start) = Inr [1]"
  "GetKey (vss_km cmp_round4_start) (KeyID cmp_round4_start, From (cmp_msg4 c)) =
     Inr \<lparr>vss_exponents = [3, 5], vss_shares = []\<rparr>"
  "EvaluateByExponents Z7 \<lparr>vss_exponents = [3, 5], vss_shares = []\<rparr>
     (Scalar4 Z7_env4 (SelfID cmp_round4_start)) = Inr 1"
  "Decode Z7_env4 [1] c = Inr c"
  "Content (cmp_msg4 c) = Body \<lparr>Share = c, Fac = 2\<rparr>"
  "Order Z7 = 7"
  "ActOnBase Z7 2 = 2"
  by (simp_all add: cmp_round4_StoreMessage_def cmp_round4_start_def cmp_msg4_def Z7_env4_def
      Z7_def GetKey_def EvaluateByExponents_def ImportShare_def Z7_party_scalar_def Let_def)

text \<open>
  C1. For a direct share message of round 4 and a group of positive order:
  whenever \<^verbatim>\<open>StoreMessage\<close> returns no error, the ciphertext decrypted under the
  receiver's own Paillier key to an integer \<open>d\<close> with \<open>0 \<le> d < Order\<close>, the point
  \<open>d \<cdot> G\<close> equals the sender's VSS exponent polynomial evaluated at the receiver's
  party scalar, and the share \<open>d\<close> is stored for the sender and the message marked as
  received. When the decrypted integer is out of that range, \<^verbatim>\<open>StoreMessage\<close>
  returns the range error; when it is in range and the two points differ, it returns
  the VSS error; in both cases the round is left as it was.
\<close>

theorem cmp_round4_StoreMessage_checks_share:
  assumes "Content msg = Body body" and "0 < Order G"
  shows
    "(\<forall>r'. cmp_round4_StoreMessage env G r msg = (r', None) \<longrightarrow>
        (\<exists>paillierKey d vssKey vssKey'.
           GetKey (paillier_km r) (KeyID r, SelfID r) = Inr paillierKey \<and>
           Decode env paillierKey (Share body) = Inr d \<and>
           0 \<le> d \<and> d < int (Order G) \<and>
           GetKey (vss_km r) (KeyID r, From msg) = Inr vssKey \<and>
           EvaluateByExponents G vssKey (Scalar4 env (SelfID r)) = Inr (ActOnBase G (nat d)) \<and>
           vss_km r' (KeyID r, From msg) = Some vssKey' \<and>
           GetShare vssKey' (Scalar4 env (SelfID r)) = Inr (nat d) \<and>
           map_of (MessagesForwarded r') (From msg) = Some True)) \<and>
     (\<forall>paillierKey d.
        GetKey (paillier_km r) (KeyID r, SelfID r) = Inr paillierKey \<longrightarrow>
        Decode env paillierKey (Share body) = Inr d \<longrightarrow>
        (d < 0 \<or> int (Order G) \<le> d \<longrightarrow>
           cmp_round4_StoreMessage env G r msg =
             (r, Some (Err ''decrypted share is not in correct range''))) \<and>
        (\<forall>vssKey P.
           0 \<le> d \<longrightarrow> d < int (Order G) \<longrightarrow>
           GetKey (vss_km r) (KeyID r, From msg) = Inr vssKey \<longrightarrow>
           EvaluateByExponents G vssKey (Scalar4 env (SelfID r)) = Inr P \<longrightarrow>
           ActOnBase G (nat d) \<noteq> P \<longrightarrow>
           cmp_round4_StoreMessage env G r msg = (r, Some (Err ''failed to validate VSS share''))))"
proof (intro conjI allI impI)
  fix r'
  assume ok: "cmp_round4_StoreMessage env G r msg = (r', None)"
  from ok assms(1) obtain paillierKey where
    k: "GetKey (paillier_km r) (KeyID r, SelfID r) = Inr paillierKey"
    by (auto simp: cmp_round4_StoreMessage_def split: sum.splits)
  from ok assms(1) k obtain d where
    d: "Decode env paillierKey (Share body) = Inr d"
    by (auto simp: cmp_round4_StoreMessage_def split: sum.splits)
  from ok assms(1) k d have eq: "d = int (nat (d mod int (Order G)))"
    by (auto simp: cmp_round4_StoreMessage_def Let_def split: sum.splits if_splits)
  then have rng: "0 \<le> d \<and> d < int (Order G)"
    using share_in_range[OF assms(2), of d] by simp
  then have sh: "nat (d mod int (Order G)) = nat d" by simp
  from ok assms(1) k d eq obtain vssKey where
    v: "GetKey (vss_km r) (KeyID r, From msg) = Inr vssKey"
    by (auto simp: cmp_round4_StoreMessage_def Let_def split: sum.splits if_splits)
  from ok assms(1) k d eq v sh have
    e: "EvaluateByExponents G vssKey (Scalar4 env (SelfID r)) = Inr (ActOnBase G (nat d))"
    by (auto simp: cmp_round4_StoreMessage_def Let_def split: sum.splits if_splits)
  from ok assms(1) k d eq v sh e obtain vssKey' where
    i: "ImportShare vssKey (Scalar4 env (SelfID r)) (nat d) = Inr vssKey'" and
    r': "r' = r\<lparr>vss_km := (vss_km r)((KeyID r, From msg) \<mapsto> vssKey'),
               MessagesForwarded := AList.update (From msg) True (MessagesForwarded r)\<rparr>"
    by (auto simp: cmp_round4_StoreMessage_def Let_def split: sum.splits if_splits)
  from r' have "vss_km r' (KeyID r, From msg) = Some vssKey'"
    and "map_of (MessagesForwarded r') (From msg) = Some True"
    by (simp_all add: AList.update_conv')
  with k d rng v e ImportShare_stores[OF i]
  show "\<exists>paillierKey d vssKey vssKey'.
           GetKey (paillier_km r) (KeyID r, SelfID r) = Inr paillierKey \<and>
           Decode env paillierKey (Share body) = Inr d \<and>
           0 \<le> d \<and> d < int (Order G) \<and>
           GetKey (vss_km r) (KeyID r, From msg) = Inr vssKey \<and>
           EvaluateByExponents G vssKey (Scalar4 env (SelfID r)) = Inr (ActOnBase G (nat d)) \<and>
           vss_km r' (KeyID r, From msg) = Some vssKey' \<and>
           GetShare vssKey' (Scalar4 env (SelfID r)) = Inr (nat d) \<and>
           map_of (MessagesForwarded r') (From msg) = Some True"
    by blast
next
  fix paillierKey d
  assume k: "GetKey (paillier_km r) (KeyID r, SelfID r) = Inr paillierKey"
    and d: "Decode env paillierKey (Share body) = Inr d"
    and out: "d < 0 \<or> int (Order G) \<le> d"
  from out have "d \<noteq> int (nat (d mod int (Order G)))"
    using share_in_range[OF assms(2), of d] by auto
  with assms(1) k d
  show "cmp_round4_StoreMessage env G r msg =
          (r, Some (Err ''decrypted share is not in correct range''))"
    by (simp add: cmp_round4_StoreMessage_def Let_def)
next
  fix paillierKey d vssKey P
  assume k: "GetKey (paillier_km r) (KeyID r, SelfID r) = Inr paillierKey"
    and d: "Decode env paillierKey (Share body) = Inr d"
    and rng: "0 \<le> d" "d < int (Order G)"
    and v: "GetKey (vss_km r) (KeyID r, From msg) = Inr vssKey"
    and e: "EvaluateByExponents G vssKey (Scalar4 env (SelfID r)) = Inr P"
    and ne: "ActOnBase G (nat d) \<noteq> P"
  from rng have eq: "d = int (nat (d mod int (Order G)))"
    using share_in_range[OF assms(2), of d] by simp
  from rng have sh: "nat (d mod int (Order G)) = nat d" by simp
  from assms(1) k d eq v e ne sh
  show "cmp_round4_StoreMessage env G r msg = (r, Some (Err ''failed to validate VSS share''))"
    by (simp add: cmp_round4_StoreMessage_def Let_def)
qed

theorem cmp_round4_StoreMessage_checks_share_witness:
  "snd (cmp_round4_StoreMessage Z7_env4 Z7 cmp_round4_start (cmp_msg4 1)) = None \<and>
   (\<exists>paillierKey d vssKey vssKey'.
      GetKey (cmp_round4.paillier_km cmp_round4_start) (KeyID cmp_round4_start, SelfID cmp_round4_start)
        = Inr paillierKey \<and>
      Decode Z7_env4 paillierKey (Share (\<lparr>Share = 1, Fac = 2\<rparr> :: (int, nat) cmp_message4)) = Inr d \<and>
      0 \<le> d \<and> d < int (Order Z7) \<and>
      GetKey (vss_km cmp_round4_start) (KeyID cmp_round4_start, From (cmp_msg4 1)) = Inr vssKey \<and>
      EvaluateByExponents Z7 vssKey (Scalar4 Z7_env4 (SelfID cmp_round4_start)) =
        Inr (ActOnBase Z7 (nat d)) \<and>
      vss_km (fst (cmp_round4_StoreMessage Z7_env4 Z7 cmp_round4_start (cmp_msg4 1)))
        (KeyID cmp_round4_start, From (cmp_msg4 1)) = Some vssKey' \<and>
      GetShare vssKey' (Scalar4 Z7_env4 (SelfID cmp_round4_start)) = Inr (nat d) \<and>
      map_of (MessagesForwarded (fst (cmp_round4_StoreMessage Z7_env4 Z7 cmp_round4_start (cmp_msg4 1))))
        (From (cmp_msg4 1)) = Some True) \<and>
   cmp_round4_StoreMessage Z7_env4 Z7 cmp_round4_start (cmp_msg4 8) =
     (cmp_round4_start, Some (Err ''decrypted share is not in correct range'')) \<and>
   cmp_round4_StoreMessage Z7_env4 Z7 cmp_round4_start (cmp_msg4 (- 6)) =
     (cmp_round4_start, Some (Err ''decrypted share is not in correct range'')) \<and>
   cmp_round4_StoreMessage Z7_env4 Z7 cmp_round4_start (cmp_msg4 2) =
     (cmp_round4_start, Some (Err ''failed to validate VSS share''))"
proof -
  note e = cmp_round4_start_eval
  have o: "0 < Order Z7" by (simp add: e)
  have ok: "cmp_round4_StoreMessage Z7_env4 Z7 cmp_round4_start (cmp_msg4 1) =
      (fst (cmp_round4_StoreMessage Z7_env4 Z7 cmp_round4_start (cmp_msg4 1)), None)"
    using e(1) by (simp add: prod_eq_iff)
  have A: "\<exists>paillierKey d vssKey vssKey'.
      GetKey (cmp_round4.paillier_km cmp_round4_start) (KeyID cmp_round4_start, SelfID cmp_round4_start)
        = Inr paillierKey \<and>
      Decode Z7_env4 paillierKey (Share (\<lparr>Share = 1, Fac = 2\<rparr> :: (int, nat) cmp_message4)) = Inr d \<and>
      0 \<le> d \<and> d < int (Order Z7) \<and>
      GetKey (vss_km cmp_round4_start) (KeyID cmp_round4_start, From (cmp_msg4 1)) = Inr vssKey \<and>
      EvaluateByExponents Z7 vssKey (Scalar4 Z7_env4 (SelfID cmp_round4_start)) =
        Inr (ActOnBase Z7 (nat d)) \<and>
      vss_km (fst (cmp_round4_StoreMessage Z7_env4 Z7 cmp_round4_start (cmp_msg4 1)))
        (KeyID cmp_round4_start, From (cmp_msg4 1)) = Some vssKey' \<and>
      GetShare vssKey' (Scalar4 Z7_env4 (SelfID cmp_round4_start)) = Inr (nat d) \<and>
      map_of (MessagesForwarded (fst (cmp_round4_StoreMessage Z7_env4 Z7 cmp_round4_start (cmp_msg4 1))))
        (From (cmp_msg4 1)) = Some True"
    using cmp_round4_StoreMessage_checks_share [OF e(6)[of "1"] o, where env = Z7_env4 and r = cmp_round4_start, THEN conjunct1, rule_format, OF ok] .
  have B8: "cmp_round4_StoreMessage Z7_env4 Z7 cmp_round4_start (cmp_msg4 8) =
     (cmp_round4_start, Some (Err ''decrypted share is not in correct range''))"
    using cmp_round4_StoreMessage_checks_share [OF e(6)[of "8"] o, where env = Z7_env4 and r = cmp_round4_start, THEN conjunct2, rule_format, OF e(2), THEN conjunct1, rule_format] e(5)[of 8] e(7)
    by simp
  have B6: "cmp_round4_StoreMessage Z7_env4 Z7 cmp_round4_start (cmp_msg4 (- 6)) =
     (cmp_round4_start, Some (Err ''decrypted share is not in correct range''))"
    using cmp_round4_StoreMessage_checks_share [OF e(6)[of "- 6"] o, where env = Z7_env4 and r = cmp_round4_start, THEN conjunct2, rule_format, OF e(2), THEN conjunct1, rule_format] e(5)[of "- 6"]
    by simp
  have C2: "cmp_round4_StoreMessage Z7_env4 Z7 cmp_round4_start (cmp_msg4 2) =
     (cmp_round4_start, Some (Err ''failed to validate VSS share''))"
    using cmp_round4_StoreMessage_checks_share [OF e(6)[of "2"] o, where env = Z7_env4 and r = cmp_round4_start, THEN conjunct2, rule_format, OF e(2), THEN conjunct2, rule_format, OF _ _ _ e(3) e(4)]
      e(5)[of 2] e(7) e(8)
    by simp
  from e(1) A B8 B6 C2 show ?thesis by blast
qed

text \<open>
  C5. \<^verbatim>\<open>Finalize\<close> of CMP key generation round 4 and of FROST key generation
  round 2, called while \<^verbatim>\<open>CanFinalize\<close> is false, returns the error
  \<^verbatim>\<open>ErrNotEnoughMessages\<close> with the nil session and emits nothing.
\<close>

theorem Finalize_before_CanFinalize:
  "(\<not> cmp_round4_CanFinalize r \<longrightarrow>
      cmp_round4_Finalize env G r out = (NoSession, Some ErrNotEnoughMessages, out)) \<and>
   (\<not> keygen_round2_CanFinalize r2 \<longrightarrow>
      keygen_round2_Finalize env2 G2 r2 out2 = (NoSession, Some ErrNotEnoughMessages, out2))"
  by (simp add: cmp_round4_CanFinalize_def cmp_round4_Finalize_def keygen_round2_Finalize_def)


theorem Finalize_before_CanFinalize_witness:
  "\<not> cmp_round4_CanFinalize cmp_round4_start \<and>
   cmp_round4_Finalize Z7_env4 Z7 cmp_round4_start \<lparr>capacity = 5, queue = []\<rparr> =
     (NoSession, Some ErrNotEnoughMessages, \<lparr>capacity = 5, queue = []\<rparr>) \<and>
   \<not> keygen_round2_CanFinalize keygen_round2_start \<and>
   keygen_round2_Finalize Z7_keygen_env Z7 keygen_round2_start \<lparr>capacity = 5, queue = []\<rparr> =
     (NoSession, Some ErrNotEnoughMessages, \<lparr>capacity = 5, queue = []\<rparr>)"
  using Finalize_before_CanFinalize
    [of cmp_round4_start Z7_env4 Z7 "\<lparr>capacity = 5, queue = []\<rparr>"
        keygen_round2_start Z7_keygen_env Z7 "\<lparr>capacity = 5, queue = []\<rparr>"]
  by (simp add: cmp_round4_CanFinalize_def cmp_round4_start_def keygen_round2_CanFinalize_def
      keygen_round2_start_def len_def N_def HasAll_def OtherPartyIDs_def)

end
